theory Spec2Isabelle
  imports Complex_Main "HOL-Library.Char_ord" "HOL-Library.List_Lexorder"
    "HOL-Library.Product_Lexorder"
begin

section \<open>Numbers\<close>

text \<open>
  The analysis code computes on float64 columns. A value of such a column is modelled as a
  finite number, one of the two infinities, or NaN. Finite arithmetic is exact (a real
  number): rounding error and overflow of float64 are outside the model, and so is the sign
  of a zero (a zero divisor is taken as +0.0). What is kept is how pandas and numpy treat a
  zero divisor, NaN and the infinities.
\<close>

datatype fval = Fin real | PInf | NInf | NaN

fun fadd :: "fval \<Rightarrow> fval \<Rightarrow> fval" where
  "fadd NaN _ = NaN"
| "fadd _ NaN = NaN"
| "fadd (Fin a) (Fin b) = Fin (a + b)"
| "fadd PInf NInf = NaN"
| "fadd NInf PInf = NaN"
| "fadd PInf _ = PInf"
| "fadd _ PInf = PInf"
| "fadd NInf _ = NInf"
| "fadd _ NInf = NInf"

fun fneg :: "fval \<Rightarrow> fval" where
  "fneg (Fin a) = Fin (- a)"
| "fneg PInf = NInf"
| "fneg NInf = PInf"
| "fneg NaN = NaN"

definition fsub :: "fval \<Rightarrow> fval \<Rightarrow> fval" where
  "fsub a b = fadd a (fneg b)"

text \<open>Division as numpy does it on float64: a zero divisor gives an infinity or NaN, no error.\<close>

fun fdiv :: "fval \<Rightarrow> fval \<Rightarrow> fval" where
  "fdiv NaN _ = NaN"
| "fdiv _ NaN = NaN"
| "fdiv (Fin a) (Fin b) =
     (if b \<noteq> 0 then Fin (a / b)
      else if a > 0 then PInf else if a < 0 then NInf else NaN)"
| "fdiv (Fin a) PInf = Fin 0"
| "fdiv (Fin a) NInf = Fin 0"
| "fdiv PInf (Fin b) = (if b \<ge> 0 then PInf else NInf)"
| "fdiv NInf (Fin b) = (if b \<ge> 0 then NInf else PInf)"
| "fdiv _ _ = NaN"

fun fmul :: "fval \<Rightarrow> fval \<Rightarrow> fval" where
  "fmul NaN _ = NaN"
| "fmul _ NaN = NaN"
| "fmul (Fin a) (Fin b) = Fin (a * b)"
| "fmul (Fin a) PInf = (if a > 0 then PInf else if a < 0 then NInf else NaN)"
| "fmul (Fin a) NInf = (if a > 0 then NInf else if a < 0 then PInf else NaN)"
| "fmul PInf (Fin b) = (if b > 0 then PInf else if b < 0 then NInf else NaN)"
| "fmul NInf (Fin b) = (if b > 0 then NInf else if b < 0 then PInf else NaN)"
| "fmul PInf PInf = PInf"
| "fmul NInf NInf = PInf"
| "fmul PInf NInf = NInf"
| "fmul NInf PInf = NInf"

text \<open>\<open>a > b\<close> and \<open>a >= b\<close> on float64: every comparison with NaN is false.\<close>

fun fgt :: "fval \<Rightarrow> fval \<Rightarrow> bool" where
  "fgt NaN _ = False"
| "fgt _ NaN = False"
| "fgt (Fin a) (Fin b) = (a > b)"
| "fgt PInf PInf = False"
| "fgt PInf _ = True"
| "fgt NInf _ = False"
| "fgt (Fin a) NInf = True"
| "fgt (Fin a) PInf = False"

definition fge :: "fval \<Rightarrow> fval \<Rightarrow> bool" where
  "fge a b = (a \<noteq> NaN \<and> b \<noteq> NaN \<and> (a = b \<or> fgt a b))"

text \<open>Rounding to the nearest integer, ties to the even one (\<open>round\<close> of Python, \<open>rint\<close> of numpy).\<close>

definition round_half_even :: "real \<Rightarrow> int" where
  "round_half_even x =
     (let f = \<lfloor>x\<rfloor>; r = x - of_int f
      in if r < 1 / 2 then f else if r > 1 / 2 then f + 1
         else if even f then f else f + 1)"

definition round_to :: "nat \<Rightarrow> real \<Rightarrow> real" where
  "round_to d x = of_int (round_half_even (x * 10 ^ d)) / 10 ^ d"

text \<open>\<open>.round(d)\<close> of a pandas column, on one value: NaN and the infinities stay.\<close>

fun fround :: "nat \<Rightarrow> fval \<Rightarrow> fval" where
  "fround d (Fin a) = Fin (round_to d a)"
| "fround d v = v"

text \<open>\<open>.fillna(0)\<close> on one value: only NaN is replaced.\<close>

fun fillna0 :: "fval \<Rightarrow> fval" where
  "fillna0 NaN = Fin 0"
| "fillna0 v = v"

text \<open>\<open>.sum()\<close> and \<open>.mean()\<close> of a derived column (NaN skipped, as pandas does).\<close>

definition fsum :: "fval list \<Rightarrow> fval" where
  "fsum vs = foldl fadd (Fin 0) (filter (\<lambda>v. v \<noteq> NaN) vs)"

definition fmean :: "fval list \<Rightarrow> fval" where
  "fmean vs =
     (let ws = filter (\<lambda>v. v \<noteq> NaN) vs
      in if ws = [] then NaN else fdiv (foldl fadd (Fin 0) ws) (Fin (of_nat (length ws))))"

section \<open>Strings\<close>

text \<open>
  \<open>str.lower()\<close> on the letters A to Z. The question is a string of 8-bit characters; no
  keyword of the classifier holds a character outside a-z and the blank, so case folding of
  other characters cannot produce or destroy a match.
\<close>

definition lower_char :: "char \<Rightarrow> char" where
  "lower_char c =
     (case map_of (zip ''ABCDEFGHIJKLMNOPQRSTUVWXYZ'' ''abcdefghijklmnopqrstuvwxyz'') c of
        Some d \<Rightarrow> d | None \<Rightarrow> c)"

definition lower :: "string \<Rightarrow> string" where
  "lower s = map lower_char s"

fun starts_with :: "string \<Rightarrow> string \<Rightarrow> bool" where
  "starts_with [] s = True"
| "starts_with (c # w) [] = False"
| "starts_with (c # w) (d # s) = (c = d \<and> starts_with w s)"

text \<open>\<open>w in s\<close> of Python on strings: \<open>w\<close> occurs in \<open>s\<close> as a contiguous substring.\<close>

fun contains :: "string \<Rightarrow> string \<Rightarrow> bool" where
  "contains w [] = (w = [])"
| "contains w (c # s) = (starts_with w (c # s) \<or> contains w s)"

text \<open>\<open>any(word in s for word in words)\<close>.\<close>

definition any_word_in :: "string list \<Rightarrow> string \<Rightarrow> bool" where
  "any_word_in ws s = list_ex (\<lambda>w. contains w s) ws"

section \<open>Tables\<close>

text \<open>
  The uploaded table, as the analysis routines see it after the type coercion of the upload
  path: the columns the routines read, each present or absent (\<open>'Region' in df.columns\<close> is
  \<open>Region df \<noteq> None\<close>). A numeric column holds numbers and NaN (\<open>None\<close>), a text
  column holds strings and missing values (\<open>None\<close>), the date column holds dates and NaT
  (\<open>None\<close>). All present columns have \<open>nrows\<close> entries. Text columns hold text, numeric
  columns hold finite numbers: a CSV file whose Region column is numeric, or one that spells
  out \<open>inf\<close>, is outside the model.
\<close>

type_synonym date = "nat \<times> nat \<times> nat"
type_synonym num_col = "real option list"
type_synonym key_col = "string option list"

record dataframe =
  nrows :: nat
  Date :: "date option list option"
  Region :: "key_col option"
  Product_Service_Name :: "key_col option"
  Category_Department :: "key_col option"
  Campaign_Name :: "key_col option"
  Revenue :: "num_col option"
  Profit :: "num_col option"
  Units_Sold :: "num_col option"
  Customer_Satisfaction_Score :: "num_col option"
  Inventory_Level :: "num_col option"

text \<open>
  An aggregated table: an index (the group keys) and, per key, the named columns of the row.
\<close>

datatype key = Name string | Period nat nat | Score real

type_synonym row = "(string \<times> fval) list"

record frame =
  index_name :: string
  rows :: "(key \<times> row) list"

text \<open>A cell of a row; every column read by the routines is one the row was built with.\<close>

definition cell :: "row \<Rightarrow> string \<Rightarrow> fval" where
  "cell r c = (case map_of r c of Some v \<Rightarrow> v | None \<Rightarrow> NaN)"

definition column :: "string \<Rightarrow> (key \<times> row) list \<Rightarrow> fval list" where
  "column c rs = map (\<lambda>(k, r). cell r c) rs"

text \<open>The values of a column that are not missing (pandas skips NaN in every aggregation).\<close>

definition present :: "'a option list \<Rightarrow> 'a list" where
  "present xs = List.map_filter (\<lambda>x. x) xs"

definition col_sum :: "num_col \<Rightarrow> real" where
  "col_sum vs = sum_list (present vs)"

text \<open>
  \<open>df.groupby(key)\<close>: the groups are the distinct keys that are not missing, in ascending
  order; \<open>group_of ks vs k\<close> is column \<open>vs\<close> restricted to the rows of group \<open>k\<close>.
\<close>

definition group_keys :: "('k::linorder) option list \<Rightarrow> 'k list" where
  "group_keys ks = sort (remdups (present ks))"

definition group_of :: "'k option list \<Rightarrow> 'v list \<Rightarrow> 'k \<Rightarrow> 'v list" where
  "group_of ks vs k = map snd (filter (\<lambda>(k', v). k' = Some k) (zip ks vs))"

text \<open>
  \<open>sort_values(col, ascending=False)\<close>: descending, NaN last; rows with equal values keep
  their order (pandas reverses, sorts ascending and reverses again; numpy's default sort is
  stable on the short tables a group-by yields here).
\<close>

definition desc_before :: "fval \<Rightarrow> fval \<Rightarrow> bool" where
  "desc_before a b = ((b = NaN \<and> a \<noteq> NaN) \<or> fgt a b)"

fun insert_desc :: "('a \<Rightarrow> fval) \<Rightarrow> 'a \<Rightarrow> 'a list \<Rightarrow> 'a list" where
  "insert_desc f a [] = [a]"
| "insert_desc f a (b # bs) =
     (if desc_before (f b) (f a) then b # insert_desc f a bs else a # b # bs)"

definition sort_values_desc :: "('a \<Rightarrow> fval) \<Rightarrow> 'a list \<Rightarrow> 'a list" where
  "sort_values_desc f xs = foldr (insert_desc f) xs []"

text \<open>\<open>idxmax()\<close>: the key of the first largest value, NaN skipped; none when nothing is left.\<close>

definition idxmax :: "('k \<times> fval) list \<Rightarrow> 'k option" where
  "idxmax kvs =
     (case filter (\<lambda>(k, v). v \<noteq> NaN) kvs of
        [] \<Rightarrow> None
      | (k, v) # rest \<Rightarrow>
          Some (fst (foldl (\<lambda>(bk, bv) (k', v'). if fgt v' bv then (k', v') else (bk, bv))
                       (k, v) rest)))"

text \<open>
  \<open>quantile(q)\<close> with linear interpolation between the two nearest order statistics; NaN
  for an empty column.
\<close>

definition quantile :: "real \<Rightarrow> real list \<Rightarrow> fval" where
  "quantile q vs =
     (if vs = [] then NaN
      else let s = sort vs;
               h = q * of_nat (length vs - 1);
               lo = nat \<lfloor>h\<rfloor>;
               frac = h - of_int \<lfloor>h\<rfloor>
           in if frac = 0 then Fin (s ! lo)
              else Fin (s ! lo + (s ! (lo + 1) - s ! lo) * frac))"

section \<open>Results\<close>

text \<open>
  The report text is an f-string: a sequence of literal fragments and substituted values.
  The substituted values are kept with their format specification; how a number is
  rendered into digits is not modelled.
\<close>

datatype piece =
    Lit string
  | Sub key
  | Flt string fval
  | Cnt string int
  | Dat string date

datatype chart_kind = BarChart | LineChart | PieChart | ScatterChart

record chart =
  kind :: chart_kind
  title :: string
  x_axis :: string
  y_axis :: string
  colour :: "string option"
  bubble_size :: "string option"
  chart_data :: frame

text \<open>
  The dictionary a routine returns: the key \<open>text\<close> always, the keys \<open>chart\<close> and
  \<open>dataframe\<close> only on some paths (\<open>None\<close>: the key is absent).
\<close>

record result =
  rtext :: "piece list"
  rchart :: "chart option"
  rdataframe :: "frame option"

definition text_only :: "string \<Rightarrow> result" where
  "text_only s = \<lparr>rtext = [Lit s], rchart = None, rdataframe = None\<rparr>"

text \<open>
  The exceptions the routines can raise on a table: pandas raises KeyError for aggregation
  columns that do not exist (it names them, sorted), \<open>index[0]\<close> on an empty index raises
  IndexError, \<open>idxmax\<close> of an empty series and \<open>strftime\<close> of NaT raise ValueError.
  The charting library is taken not to fail.
\<close>

datatype error = KeyError "string list" | IndexError | ValueError

definition missing_columns :: "(string \<times> 'a option) list \<Rightarrow> string list" where
  "missing_columns cs = map fst (filter (\<lambda>(c, v). v = None) cs)"

section \<open>Analysis routines\<close>

text \<open>
  \<open>df.groupby(key).agg({c: 'sum', ...}).round(2)\<close>: per group, the sum of each column
  (NaN skipped), rounded to two decimals.
\<close>

definition agg_sum_round2 :: "'k option list \<Rightarrow> (string \<times> num_col) list \<Rightarrow> 'k \<Rightarrow> row" where
  "agg_sum_round2 ks cols k =
     map (\<lambda>(c, vs). (c, fround 2 (Fin (col_sum (group_of ks vs k))))) cols"

text \<open>\<open>(data['Profit'] / data['Revenue'] * 100).round(2).fillna(0)\<close>, on one row.\<close>

definition Profit_Margin :: "row \<Rightarrow> fval" where
  "Profit_Margin r =
     fillna0 (fround 2 (fmul (fdiv (cell r ''Profit'') (cell r ''Revenue'')) (Fin 100)))"

text \<open>
  The aggregation the Regional, Margin and Category routines share: sums of Revenue, Profit
  and Units_Sold per group, and the derived column Profit_Margin.
\<close>

definition sums_with_margin ::
  "key_col \<Rightarrow> num_col \<Rightarrow> num_col \<Rightarrow> num_col \<Rightarrow> (key \<times> row) list" where
  "sums_with_margin ks revenue profit units =
     map (\<lambda>k. let r = agg_sum_round2 ks
                        [(''Revenue'', revenue), (''Profit'', profit), (''Units_Sold'', units)] k
               in (Name k, r @ [(''Profit_Margin'', Profit_Margin r)]))
         (group_keys ks)"

definition regional_data :: "key_col \<Rightarrow> num_col \<Rightarrow> num_col \<Rightarrow> num_col \<Rightarrow> (key \<times> row) list" where
  "regional_data region revenue profit units =
     sort_values_desc (\<lambda>(k, r). cell r ''Revenue'') (sums_with_margin region revenue profit units)"

definition regional_text :: "key \<Rightarrow> fval \<Rightarrow> fval \<Rightarrow> fval \<Rightarrow> (key \<times> row) list \<Rightarrow> piece list" where
  "regional_text top_region top_revenue top_percentage total_revenue data =
     [Lit (''\<newline>    ## '' @ [CHR 0xF0, CHR 0x9F, CHR 0x93, CHR 0x8D] @ '' Regional Performance Analysis\<newline>    \<newline>    **Key Insights:**\<newline>    - **Top Performing Region:** **''),
      Sub top_region,
      Lit (''** ($''),
      Flt '',.0f'' top_revenue,
      Lit ('' - ''),
      Flt [] top_percentage,
      Lit (''% of total revenue)\<newline>    - **Total Revenue Across All Regions:** $''),
      Flt '',.0f'' total_revenue,
      Lit (''\<newline>    \<newline>    **Detailed Breakdown:**\<newline>    '')]
     @ concat (map (\<lambda>(region, r).
         [Lit (''\<newline>- **''),
          Sub region,
          Lit ('':** $''),
          Flt '',.0f'' (cell r ''Revenue''),
          Lit ('' revenue, ''),
          Flt [] (cell r ''Profit_Margin''),
          Lit (''% profit margin'')]) data)"

definition analyze_regional_performance :: "dataframe \<Rightarrow> error + result" where
  "analyze_regional_performance df =
     (case (Region df, Revenue df) of
        (Some region, Some revenue) \<Rightarrow>
          (case (Profit df, Units_Sold df) of
             (Some profit, Some units) \<Rightarrow>
               (let data = regional_data region revenue profit units;
                    fig = \<lparr>kind = BarChart, title = ''Revenue by Region'',
                           x_axis = ''Region'', y_axis = ''Revenue'',
                           colour = Some ''Revenue'', bubble_size = None,
                           chart_data = \<lparr>index_name = ''Region'', rows = data\<rparr>\<rparr>
                in case data of
                     [] \<Rightarrow> Inl IndexError
                   | (top_region, top_row) # _ \<Rightarrow>
                       (let top_revenue = cell top_row ''Revenue'';
                            total_revenue = fsum (column ''Revenue'' data);
                            top_percentage =
                              fround 1 (fmul (fdiv top_revenue total_revenue) (Fin 100))
                        in Inr \<lparr>rtext = regional_text top_region top_revenue top_percentage
                                           total_revenue data,
                                rchart = Some fig,
                                rdataframe = Some \<lparr>index_name = ''Region'', rows = data\<rparr>\<rparr>))
           | _ \<Rightarrow>
               Inl (KeyError (missing_columns
                      [(''Profit'', Profit df), (''Units_Sold'', Units_Sold df)])))
      | _ \<Rightarrow>
          Inr (text_only
            ''Regional analysis requires 'Region' and 'Revenue' columns in your data.''))"

text \<open>The Margin routine groups by product name when that column exists, else by category.\<close>

definition group_col :: "dataframe \<Rightarrow> string" where
  "group_col df =
     (if Product_Service_Name df \<noteq> None then ''Product_Service_Name''
      else ''Category_Department'')"

definition group_col_keys :: "dataframe \<Rightarrow> key_col option" where
  "group_col_keys df =
     (if Product_Service_Name df \<noteq> None then Product_Service_Name df
      else Category_Department df)"

definition replace_underscores :: "string \<Rightarrow> string" where
  "replace_underscores s = map (\<lambda>c. if c = CHR ''_'' then CHR '' '' else c) s"

definition profit_data :: "key_col \<Rightarrow> num_col \<Rightarrow> num_col \<Rightarrow> num_col \<Rightarrow> (key \<times> row) list" where
  "profit_data ks revenue profit units =
     sort_values_desc (\<lambda>(k, r). cell r ''Profit_Margin'') (sums_with_margin ks revenue profit units)"

text \<open>\<open>enumerate(xs)\<close>.\<close>

definition enumerate_from0 :: "'a list \<Rightarrow> (nat \<times> 'a) list" where
  "enumerate_from0 xs = zip [0..<length xs] xs"

definition margin_lines :: "(key \<times> row) list \<Rightarrow> piece list" where
  "margin_lines items =
     concat (map (\<lambda>(i, (item, r)).
         [Lit (''\<newline>''),
          Cnt [] (int i + 1),
          Lit (''. **''),
          Sub item,
          Lit ('':** ''),
          Flt [] (cell r ''Profit_Margin''),
          Lit (''% margin ($''),
          Flt '',.0f'' (cell r ''Revenue''),
          Lit ('' revenue)'')]) (enumerate_from0 items))"

definition margin_text :: "key \<Rightarrow> fval \<Rightarrow> fval \<Rightarrow> (key \<times> row) list \<Rightarrow> piece list" where
  "margin_text top_item top_margin avg_margin data =
     [Lit (''\<newline>    ## '' @ [CHR 0xF0, CHR 0x9F, CHR 0x92, CHR 0xB0] @ '' Profit Margin Analysis\<newline>    \<newline>    **Key Insights:**\<newline>    - **Highest Margin:** **''),
      Sub top_item,
      Lit (''** (''),
      Flt [] top_margin,
      Lit (''%)\<newline>    - **Average Margin:** ''),
      Flt ''.1f'' avg_margin,
      Lit (''%\<newline>    - **Focus:** Analyze high-margin products to understand cost structures and pricing strategies.\<newline>    \<newline>    **Top 5 Performers:**\<newline>    '')]
     @ margin_lines (take 5 data)"

definition analyze_profit_margins :: "dataframe \<Rightarrow> error + result" where
  "analyze_profit_margins df =
     (case (Profit df, Revenue df) of
        (Some profit, Some revenue) \<Rightarrow>
          (case group_col_keys df of
             None \<Rightarrow>
               Inr (text_only
                 ''Profit analysis requires a 'Product_Service_Name' or 'Category_Department' column in your data.'')
           | Some ks \<Rightarrow>
               (case Units_Sold df of
                  None \<Rightarrow> Inl (KeyError [''Units_Sold''])
                | Some units \<Rightarrow>
                    (let data = profit_data ks revenue profit units;
                         df_chart = take 10 data;
                         fig = \<lparr>kind = BarChart,
                                title = ''Top 10 '' @ replace_underscores (group_col df)
                                          @ '' by Profit Margin'',
                                x_axis = ''Profit_Margin'', y_axis = group_col df,
                                colour = Some ''Profit_Margin'', bubble_size = None,
                                chart_data = \<lparr>index_name = group_col df, rows = df_chart\<rparr>\<rparr>
                     in case data of
                          [] \<Rightarrow> Inl IndexError
                        | (top_item, top_row) # _ \<Rightarrow>
                            (let top_margin = cell top_row ''Profit_Margin'';
                                 avg_margin = fmean (column ''Profit_Margin'' data)
                             in Inr \<lparr>rtext = margin_text top_item top_margin avg_margin data,
                                     rchart = Some fig,
                                     rdataframe = Some \<lparr>index_name = group_col df,
                                                         rows = take 10 data\<rparr>\<rparr>))))
      | _ \<Rightarrow>
          Inr (text_only
            ''Profit analysis requires 'Profit' and 'Revenue' columns in your data.''))"

text \<open>
  The Monthly routine. \<open>dt.to_period('M')\<close> keeps year and month of a date; \<open>pct_change()\<close>
  is \<open>data / data.shift(1) - 1\<close>, NaN on the first row.
\<close>

definition to_period_M :: "date option \<Rightarrow> (nat \<times> nat) option" where
  "to_period_M d = map_option (\<lambda>(y, m, d). (y, m)) d"

fun pct_change :: "fval list \<Rightarrow> fval list" where
  "pct_change [] = []"
| "pct_change (v # vs) =
     NaN # map (\<lambda>(prev, cur). fsub (fdiv cur prev) (Fin 1)) (zip (v # vs) vs)"

definition monthly_data :: "date option list \<Rightarrow> num_col \<Rightarrow> num_col \<Rightarrow> num_col \<Rightarrow> (key \<times> row) list" where
  "monthly_data dates revenue units profit =
     (let months = map to_period_M dates;
          totals = map (\<lambda>k. (Period (fst k) (snd k),
                           agg_sum_round2 months
                             [(''Revenue'', revenue), (''Units_Sold'', units), (''Profit'', profit)] k))
                     (group_keys months);
          growth = map (\<lambda>g. fmul g (Fin 100)) (pct_change (column ''Revenue'' totals))
      in map (\<lambda>((k, r), g). (k, r @ [(''Revenue_Growth'', g)])) (zip totals growth))"

definition monthly_text :: "key \<Rightarrow> fval \<Rightarrow> fval \<Rightarrow> key \<Rightarrow> fval \<Rightarrow> fval \<Rightarrow> piece list" where
  "monthly_text latest_month latest_revenue latest_growth best_month best_revenue mean_revenue =
     [Lit (''\<newline>    ## '' @ [CHR 0xF0, CHR 0x9F, CHR 0x93, CHR 0x88] @ '' Monthly Revenue Trends Analysis\<newline>    \<newline>    **Key Insights:**\<newline>    - **Latest Month (''),
      Sub latest_month,
      Lit (''):** **$''),
      Flt '',.0f'' latest_revenue,
      Lit (''**\<newline>    - **Month-over-Month Growth:** ''),
      Flt ''.1f'' latest_growth,
      Lit (''%\<newline>    - **Best Performing Month:** ''),
      Sub best_month,
      Lit ('' ($''),
      Flt '',.0f'' best_revenue,
      Lit ('')\<newline>    - **Average Monthly Revenue:** $''),
      Flt '',.0f'' mean_revenue,
      Lit (''\<newline>    \<newline>    **Trend Analysis:**\<newline>    The chart shows your revenue progression over time. Look for **seasonal patterns** and **growth opportunities**.\<newline>    '')]"

definition analyze_monthly_trends :: "dataframe \<Rightarrow> error + result" where
  "analyze_monthly_trends df =
     (case (Date df, Revenue df) of
        (Some dates, Some revenue) \<Rightarrow>
          (case (Units_Sold df, Profit df) of
             (Some units, Some profit) \<Rightarrow>
               (let data = monthly_data dates revenue units profit;
                    fig = \<lparr>kind = LineChart, title = ''Monthly Revenue Trends'',
                           x_axis = ''Month'', y_axis = ''Revenue'',
                           colour = None, bubble_size = None,
                           chart_data = \<lparr>index_name = ''Month'', rows = data\<rparr>\<rparr>
                in if data = [] then Inl IndexError
                   else
                     (let latest_month = fst (last data);
                          latest_revenue = cell (snd (last data)) ''Revenue'';
                          latest_growth = cell (snd (last data)) ''Revenue_Growth''
                      in case idxmax (map (\<lambda>(k, r). ((k, r), cell r ''Revenue'')) data) of
                           None \<Rightarrow> Inl ValueError
                         | Some (best_month, best_row) \<Rightarrow>
                             Inr \<lparr>rtext = monthly_text latest_month latest_revenue latest_growth
                                             best_month (cell best_row ''Revenue'')
                                             (fmean (column ''Revenue'' data)),
                                  rchart = Some fig,
                                  rdataframe = Some \<lparr>index_name = ''Month'', rows = data\<rparr>\<rparr>))
           | _ \<Rightarrow>
               Inl (KeyError (missing_columns
                      [(''Profit'', Profit df), (''Units_Sold'', Units_Sold df)])))
      | _ \<Rightarrow>
          Inr (text_only
            ''Monthly trend analysis requires 'Date' (datetime format) and 'Revenue' columns in your data.''))"

text \<open>
  The Campaign routine. \<open>Avg_Order_Value\<close> divides the revenue of a campaign by the number
  of its rows (\<open>groupby(...).size()\<close>).
\<close>

definition group_size :: "'k option list \<Rightarrow> 'k \<Rightarrow> nat" where
  "group_size ks k = length (filter (\<lambda>k'. k' = Some k) ks)"

definition campaign_data :: "key_col \<Rightarrow> num_col \<Rightarrow> num_col \<Rightarrow> num_col \<Rightarrow> (key \<times> row) list" where
  "campaign_data ks revenue units profit =
     sort_values_desc (\<lambda>(k, r). cell r ''Revenue'')
       (map (\<lambda>k. let r = agg_sum_round2 ks
                          [(''Revenue'', revenue), (''Units_Sold'', units), (''Profit'', profit)] k
                 in (Name k,
                     r @ [(''Avg_Order_Value'',
                           fillna0 (fround 2 (fdiv (cell r ''Revenue'')
                                                   (Fin (of_nat (group_size ks k))))))]))
            (group_keys ks))"

definition campaign_text :: "key \<Rightarrow> fval \<Rightarrow> fval \<Rightarrow> fval \<Rightarrow> (key \<times> row) list \<Rightarrow> piece list" where
  "campaign_text best_campaign best_revenue best_percentage total_revenue data =
     [Lit (''\<newline>    ## '' @ [CHR 0xF0, CHR 0x9F, CHR 0x8E, CHR 0xAF] @ '' Campaign Performance Analysis\<newline>    \<newline>    **Key Insights:**\<newline>    - **Top Campaign:** **''),
      Sub best_campaign,
      Lit (''** ($''),
      Flt '',.0f'' best_revenue,
      Lit ('' - ''),
      Flt [] best_percentage,
      Lit (''% of total revenue)\<newline>    - **Total Campaigns:** ''),
      Cnt [] (int (length data)),
      Lit (''\<newline>    - **Total Campaign Revenue:** $''),
      Flt '',.0f'' total_revenue,
      Lit (''\<newline>    \<newline>    **Campaign Breakdown:**\<newline>    '')]
     @ concat (map (\<lambda>(campaign, r).
         [Lit (''\<newline>- **''),
          Sub campaign,
          Lit ('':** $''),
          Flt '',.0f'' (cell r ''Revenue''),
          Lit ('' revenue, **$''),
          Flt ''.0f'' (cell r ''Avg_Order_Value''),
          Lit (''** avg order value'')]) data)"

definition analyze_campaign_performance :: "dataframe \<Rightarrow> error + result" where
  "analyze_campaign_performance df =
     (case (Campaign_Name df, Revenue df) of
        (Some campaigns, Some revenue) \<Rightarrow>
          (case (Units_Sold df, Profit df) of
             (Some units, Some profit) \<Rightarrow>
               (let data = campaign_data campaigns revenue units profit;
                    fig = \<lparr>kind = PieChart, title = ''Revenue Distribution by Campaign'',
                           x_axis = ''Campaign_Name'', y_axis = ''Revenue'',
                           colour = None, bubble_size = None,
                           chart_data = \<lparr>index_name = ''Campaign_Name'', rows = data\<rparr>\<rparr>
                in case data of
                     [] \<Rightarrow> Inl IndexError
                   | (best_campaign, best_row) # _ \<Rightarrow>
                       (let best_revenue = cell best_row ''Revenue'';
                            total_revenue = fsum (column ''Revenue'' data);
                            best_percentage =
                              fround 1 (fmul (fdiv best_revenue total_revenue) (Fin 100))
                        in Inr \<lparr>rtext = campaign_text best_campaign best_revenue best_percentage
                                           total_revenue data,
                                rchart = Some fig,
                                rdataframe = Some \<lparr>index_name = ''Campaign_Name'',
                                                    rows = data\<rparr>\<rparr>))
           | _ \<Rightarrow>
               Inl (KeyError (missing_columns
                      [(''Profit'', Profit df), (''Units_Sold'', Units_Sold df)])))
      | _ \<Rightarrow>
          Inr (text_only
            ''Campaign analysis requires 'Campaign_Name' and 'Revenue' columns in your data.''))"

text \<open>
  The Satisfaction routine. \<open>mean()\<close> of a column skips NaN and is NaN when nothing is left;
  \<open>value_counts().sort_index()\<close> counts each distinct score, in ascending order of the score;
  \<open>int(score)\<close> truncates towards zero.
\<close>

definition col_mean :: "num_col \<Rightarrow> fval" where
  "col_mean vs =
     (let ws = present vs
      in if ws = [] then NaN else Fin (sum_list ws / of_nat (length ws)))"

definition value_counts_sorted :: "num_col \<Rightarrow> (real \<times> nat) list" where
  "value_counts_sorted vs =
     map (\<lambda>s. (s, length (filter (\<lambda>v. v = s) (present vs)))) (sort (remdups (present vs)))"

definition py_int :: "real \<Rightarrow> int" where
  "py_int x = (if x \<ge> 0 then \<lfloor>x\<rfloor> else \<lceil>x\<rceil>)"

definition region_satisfaction :: "key_col \<Rightarrow> num_col \<Rightarrow> (key \<times> fval) list" where
  "region_satisfaction region scores =
     sort_values_desc snd
       (map (\<lambda>k. (Name k, fround 2 (col_mean (group_of region scores k)))) (group_keys region))"

definition satisfaction_emoji :: "fval \<Rightarrow> string" where
  "satisfaction_emoji score =
     (if fge score (Fin 4) then [CHR 0xF0, CHR 0x9F, CHR 0x9F, CHR 0xA2]
      else if fge score (Fin 3) then [CHR 0xF0, CHR 0x9F, CHR 0x9F, CHR 0xA1]
      else [CHR 0xF0, CHR 0x9F, CHR 0x94, CHR 0xB4])"

definition satisfaction_region_text :: "fval \<Rightarrow> nat \<Rightarrow> (key \<times> fval) list \<Rightarrow> piece list" where
  "satisfaction_region_text avg_satisfaction n data =
     [Lit (''\<newline>        ## '' @ [CHR 0xF0, CHR 0x9F, CHR 0x98, CHR 0x8A] @ '' Customer Satisfaction Analysis\<newline>        \<newline>        **Overall Insights:**\<newline>        - **Average Satisfaction:** **''),
      Flt ''.2f'' avg_satisfaction,
      Lit (''/5.0**\<newline>        - **Total Responses:** ''),
      Cnt '','' (int n),
      Lit (''\<newline>        \<newline>        **By Region:**\<newline>        '')]
     @ concat (map (\<lambda>(region, score).
         [Lit (''\<newline>''),
          Lit (satisfaction_emoji score),
          Lit ('' **''),
          Sub region,
          Lit ('':** ''),
          Flt [] score,
          Lit (''/5.0'')]) data)"

definition satisfaction_hist_text :: "fval \<Rightarrow> nat \<Rightarrow> (real \<times> nat) list \<Rightarrow> piece list" where
  "satisfaction_hist_text avg_satisfaction n counts =
     [Lit (''\<newline>        ## '' @ [CHR 0xF0, CHR 0x9F, CHR 0x98, CHR 0x8A] @ '' Customer Satisfaction Analysis\<newline>        \<newline>        **Overall Insights:**\<newline>        - **Average Satisfaction:** **''),
      Flt ''.2f'' avg_satisfaction,
      Lit (''/5.0**\<newline>        - **Total Responses:** ''),
      Cnt '','' (int n),
      Lit (''\<newline>        \<newline>        **Score Distribution:**\<newline>        '')]
     @ concat (map (\<lambda>(score, count).
         [Lit (''\<newline>- **''),
          Cnt [] (py_int score),
          Lit ('' stars:** ''),
          Cnt '','' (int count),
          Lit ('' responses (''),
          Flt [] (fround 1 (fmul (fdiv (Fin (of_nat count)) (Fin (of_nat n))) (Fin 100))),
          Lit (''%)'')]) counts)"

definition analyze_customer_satisfaction :: "dataframe \<Rightarrow> error + result" where
  "analyze_customer_satisfaction df =
     (case Customer_Satisfaction_Score df of
        None \<Rightarrow>
          Inr (text_only
            ''Customer satisfaction analysis requires a 'Customer_Satisfaction_Score' column (0-5 scale) in your data.'')
      | Some scores \<Rightarrow>
          (let avg_satisfaction = col_mean scores;
               satisfaction_counts = value_counts_sorted scores
           in case Region df of
                Some region \<Rightarrow>
                  (let data = region_satisfaction region scores;
                       fig = \<lparr>kind = BarChart,
                              title = ''Average Customer Satisfaction by Region'',
                              x_axis = ''Region'', y_axis = ''Customer_Satisfaction_Score'',
                              colour = Some ''Customer_Satisfaction_Score'', bubble_size = None,
                              chart_data =
                                \<lparr>index_name = ''Region'',
                                 rows = map (\<lambda>(k, v). (k, [(''Customer_Satisfaction_Score'', v)]))
                                            data\<rparr>\<rparr>
                   in Inr \<lparr>rtext = satisfaction_region_text avg_satisfaction (nrows df) data,
                           rchart = Some fig,
                           rdataframe =
                             Some \<lparr>index_name = ''Region'',
                                   rows = map (\<lambda>(k, v). (k, [(''Avg_Satisfaction'', v)])) data\<rparr>\<rparr>)
              | None \<Rightarrow>
                  (let fig = \<lparr>kind = BarChart,
                              title = ''Customer Satisfaction Score Distribution'',
                              x_axis = ''Score'', y_axis = ''Count'',
                              colour = Some ''Score'', bubble_size = None,
                              chart_data =
                                \<lparr>index_name = ''Score'',
                                 rows = map (\<lambda>(s, c). (Score s, [(''Count'', Fin (of_nat c))]))
                                            satisfaction_counts\<rparr>\<rparr>
                   in Inr \<lparr>rtext = satisfaction_hist_text avg_satisfaction (nrows df)
                                     satisfaction_counts,
                           rchart = Some fig,
                           rdataframe = None\<rparr>)))"

text \<open>
  The Inventory routine. \<open>inventory_rows\<close> is \<open>df[df['Inventory_Level'].notna()]\<close>: the
  category and the inventory level of every row whose inventory level is not NaN.
\<close>

definition inventory_rows :: "key_col \<Rightarrow> num_col \<Rightarrow> (string option \<times> real) list" where
  "inventory_rows cats levels =
     List.map_filter (\<lambda>(c, v). case v of None \<Rightarrow> None | Some x \<Rightarrow> Some (c, x)) (zip cats levels)"

definition low_stock_threshold :: "(string option \<times> real) list \<Rightarrow> fval" where
  "low_stock_threshold inventory_df = quantile (1 / 4) (map snd inventory_df)"

definition low_stock_items_count :: "(string option \<times> real) list \<Rightarrow> nat" where
  "low_stock_items_count inventory_df =
     length (filter (\<lambda>(c, v). fge (low_stock_threshold inventory_df) (Fin v)) inventory_df)"

definition inventory_by_category :: "(string option \<times> real) list \<Rightarrow> (key \<times> row) list" where
  "inventory_by_category inventory_df =
     sort_values_desc (\<lambda>(k, r). cell r ''Total_Inventory'')
       (map (\<lambda>k. let g = group_of (map fst inventory_df) (map snd inventory_df) k
                 in (Name k,
                     [(''Avg_Inventory'', fround 0 (fdiv (Fin (sum_list g)) (Fin (of_nat (length g))))),
                      (''Total_Inventory'', fround 0 (Fin (sum_list g))),
                      (''Product_Count'', fround 0 (Fin (of_nat (length g))))]))
            (group_keys (map fst inventory_df)))"

definition inventory_text :: "(string option \<times> real) list \<Rightarrow> (key \<times> row) list \<Rightarrow> piece list" where
  "inventory_text inventory_df by_category =
     [Lit (''\<newline>    ## '' @ [CHR 0xF0, CHR 0x9F, CHR 0x93, CHR 0xA6] @ '' Inventory Analysis\<newline>    \<newline>    **Overall Insights:**\<newline>    - **Total Products with Inventory:** ''),
      Cnt '','' (int (length inventory_df)),
      Lit (''\<newline>    - **Average Inventory Level:** **''),
      Flt '',.0f'' (col_mean (map (\<lambda>(c, v). Some v) inventory_df)),
      Lit (''** units\<newline>    - **Low Stock Risk:** ''),
      Cnt '','' (int (low_stock_items_count inventory_df)),
      Lit ('' items are below the 25th percentile threshold of **''),
      Flt ''.0f'' (low_stock_threshold inventory_df),
      Lit ('' units**.\<newline>    \<newline>    **By Category:**\<newline>    '')]
     @ concat (map (\<lambda>(category, r).
         [Lit (''\<newline>- **''),
          Sub category,
          Lit ('':** ''),
          Flt '',.0f'' (cell r ''Total_Inventory''),
          Lit ('' total units, ''),
          Flt '',.0f'' (cell r ''Avg_Inventory''),
          Lit ('' avg per product (''),
          Flt [] (cell r ''Product_Count''),
          Lit ('' products)'')]) by_category)"

definition analyze_inventory :: "dataframe \<Rightarrow> error + result" where
  "analyze_inventory df =
     (case (Inventory_Level df, Category_Department df) of
        (Some levels, Some cats) \<Rightarrow>
          (let inventory_df = inventory_rows cats levels
           in if length inventory_df = 0
              then Inr (text_only ''No inventory data available for analysis.'')
              else
                (let by_category = inventory_by_category inventory_df;
                     fig = \<lparr>kind = BarChart, title = ''Total Inventory by Category'',
                            x_axis = ''Category_Department'', y_axis = ''Total_Inventory'',
                            colour = Some ''Total_Inventory'', bubble_size = None,
                            chart_data = \<lparr>index_name = ''Category_Department'',
                                          rows = by_category\<rparr>\<rparr>
                 in Inr \<lparr>rtext = inventory_text inventory_df by_category,
                         rchart = Some fig,
                         rdataframe = Some \<lparr>index_name = ''Category_Department'',
                                             rows = by_category\<rparr>\<rparr>))
      | _ \<Rightarrow>
          Inr (text_only
            ''Inventory analysis requires 'Inventory_Level' and 'Category_Department' columns in your data.''))"

text \<open>The Category routine.\<close>

definition category_data :: "key_col \<Rightarrow> num_col \<Rightarrow> num_col \<Rightarrow> num_col \<Rightarrow> (key \<times> row) list" where
  "category_data cats revenue profit units =
     sort_values_desc (\<lambda>(k, r). cell r ''Revenue'')
       (map (\<lambda>(k, r). (k, r @ [(''Avg_Unit_Price'',
                                  fillna0 (fround 2 (fdiv (cell r ''Revenue'')
                                                          (cell r ''Units_Sold''))))]))
            (sums_with_margin cats revenue profit units))"

definition category_text :: "key \<Rightarrow> fval \<Rightarrow> key \<Rightarrow> fval \<Rightarrow> (key \<times> row) list \<Rightarrow> piece list" where
  "category_text top_revenue_category top_revenue top_margin_category top_margin data =
     [Lit (''\<newline>    ## '' @ [CHR 0xF0, CHR 0x9F, CHR 0x8F, CHR 0xB7] @ [CHR 0xEF, CHR 0xB8, CHR 0x8F] @ '' Category Performance Analysis\<newline>    \<newline>    **Key Insights:**\<newline>    - **Highest Revenue:** **''),
      Sub top_revenue_category,
      Lit (''** ($''),
      Flt '',.0f'' top_revenue,
      Lit ('')\<newline>    - **Highest Margin:** **''),
      Sub top_margin_category,
      Lit (''** (''),
      Flt ''.1f'' top_margin,
      Lit (''%)\<newline>    - **Total Categories:** ''),
      Cnt [] (int (length data)),
      Lit (''\<newline>    \<newline>    **Category Breakdown:**\<newline>    '')]
     @ concat (map (\<lambda>(category, r).
         [Lit (''\<newline>- **''),
          Sub category,
          Lit ('':** $''),
          Flt '',.0f'' (cell r ''Revenue''),
          Lit ('' revenue, ''),
          Flt ''.1f'' (cell r ''Profit_Margin''),
          Lit (''% margin, ''),
          Flt '','' (cell r ''Units_Sold''),
          Lit ('' units sold'')]) data)"

definition analyze_category_performance :: "dataframe \<Rightarrow> error + result" where
  "analyze_category_performance df =
     (case (Category_Department df, Revenue df, Profit df) of
        (Some cats, Some revenue, Some profit) \<Rightarrow>
          (case Units_Sold df of
             None \<Rightarrow> Inl (KeyError [''Units_Sold''])
           | Some units \<Rightarrow>
               (let data = category_data cats revenue profit units;
                    fig = \<lparr>kind = ScatterChart,
                           title = ''Category Performance: Revenue vs Profit Margin (Bubble size = Units Sold)'',
                           x_axis = ''Revenue'', y_axis = ''Profit_Margin'',
                           colour = Some ''Profit_Margin'', bubble_size = Some ''Units_Sold'',
                           chart_data = \<lparr>index_name = ''Category_Department'', rows = data\<rparr>\<rparr>
                in case data of
                     [] \<Rightarrow> Inl IndexError
                   | (top_revenue_category, top_row) # _ \<Rightarrow>
                       (case idxmax (map (\<lambda>(k, r). ((k, r), cell r ''Profit_Margin'')) data) of
                          None \<Rightarrow> Inl ValueError
                        | Some (top_margin_category, margin_row) \<Rightarrow>
                            Inr \<lparr>rtext = category_text top_revenue_category
                                            (cell top_row ''Revenue'') top_margin_category
                                            (cell margin_row ''Profit_Margin'') data,
                                 rchart = Some fig,
                                 rdataframe = Some \<lparr>index_name = ''Category_Department'',
                                                     rows = data\<rparr>\<rparr>)))
      | _ \<Rightarrow>
          Inr (text_only
            ''Category analysis requires 'Category_Department', 'Revenue', and 'Profit' columns in your data.''))"

text \<open>
  The Summary routine. The overall margin is guarded by \<open>total_revenue > 0\<close>. The date range
  formats the smallest and the largest date; when the column has rows and all of them are
  NaT, \<open>strftime\<close> raises. The best region and category are \<open>idxmax\<close> of the revenue summed
  per group, which raises when there is no group.
\<close>

definition overall_margin :: "real \<Rightarrow> real \<Rightarrow> real" where
  "overall_margin total_profit total_revenue =
     (if total_revenue > 0 then total_profit / total_revenue * 100 else 0)"

definition date_range :: "dataframe \<Rightarrow> error + piece list" where
  "date_range df =
     (case Date df of
        Some dates \<Rightarrow>
          (if dates \<noteq> []
           then (case present dates of
                   [] \<Rightarrow> Inl ValueError
                 | d # ds \<Rightarrow> Inr [Dat ''%Y-%m-%d'' (fold min ds d), Lit '' to '',
                                  Dat ''%Y-%m-%d'' (fold max ds d)])
           else Inr [Lit ''Date information not available''])
      | None \<Rightarrow> Inr [Lit ''Date information not available''])"

definition top_group :: "key_col option \<Rightarrow> num_col option \<Rightarrow> error + piece" where
  "top_group keys_col revenue =
     (case (keys_col, revenue) of
        (Some ks, Some revenue_col) \<Rightarrow>
          (case idxmax (map (\<lambda>k. (k, Fin (col_sum (group_of ks revenue_col k)))) (group_keys ks)) of
             None \<Rightarrow> Inl ValueError
           | Some k \<Rightarrow> Inr (Sub (Name k)))
      | _ \<Rightarrow> Inr (Lit ''N/A''))"

definition summary_text ::
  "real \<Rightarrow> real \<Rightarrow> real \<Rightarrow> real \<Rightarrow> nat \<Rightarrow> piece list \<Rightarrow> piece \<Rightarrow> piece \<Rightarrow> piece list" where
  "summary_text total_revenue total_profit margin total_units n date_text top_region top_category =
     [Lit (''\<newline>    ## '' @ [CHR 0xF0, CHR 0x9F, CHR 0x93, CHR 0x8A] @ '' Business Performance Summary\<newline>    \<newline>    **Overall Performance:**\<newline>    - **Total Revenue:** **$''),
      Flt '',.0f'' (Fin total_revenue),
      Lit (''**\<newline>    - **Total Profit:** **$''),
      Flt '',.0f'' (Fin total_profit),
      Lit (''**\<newline>    - **Overall Profit Margin:** **''),
      Flt ''.1f'' (Fin margin),
      Lit (''%**\<newline>    - **Total Units Sold:** ''),
      Flt '','' (Fin total_units),
      Lit (''\<newline>    - **Total Records:** ''),
      Cnt '','' (int n),
      Lit (''\<newline>    - **Date Range:** '')]
     @ date_text @
     [Lit (''\<newline>    \<newline>    **Top Performers:**\<newline>    - **Best Revenue-Generating Region:** ''),
      top_region,
      Lit (''\<newline>    - **Best Revenue-Generating Category:** ''),
      top_category,
      Lit (''\<newline>    \<newline>    **'' @ [CHR 0xF0, CHR 0x9F, CHR 0x92, CHR 0xA1] @ '' Next Steps:**\<newline>    Ask me specific questions about regional performance, monthly trends, profit margins, \<newline>    campaign effectiveness, customer satisfaction, or inventory levels for deeper insights!\<newline>    '')]"

definition generate_summary :: "dataframe \<Rightarrow> error + result" where
  "generate_summary df =
     (let total_revenue = (case Revenue df of Some c \<Rightarrow> col_sum c | None \<Rightarrow> 0);
          total_profit = (case Profit df of Some c \<Rightarrow> col_sum c | None \<Rightarrow> 0);
          total_units = (case Units_Sold df of Some c \<Rightarrow> col_sum c | None \<Rightarrow> 0);
          margin = overall_margin total_profit total_revenue
      in case date_range df of
           Inl e \<Rightarrow> Inl e
         | Inr date_text \<Rightarrow>
             (case top_group (Region df) (Revenue df) of
                Inl e \<Rightarrow> Inl e
              | Inr top_region \<Rightarrow>
                  (case top_group (Category_Department df) (Revenue df) of
                     Inl e \<Rightarrow> Inl e
                   | Inr top_category \<Rightarrow>
                       Inr \<lparr>rtext = summary_text total_revenue total_profit margin total_units
                                       (nrows df) date_text top_region top_category,
                            rchart = None, rdataframe = None\<rparr>)))"

section \<open>The classifier\<close>

text \<open>
  \<open>analyze_question\<close>: the question is lower-cased and tested against the keyword lists in
  the order of the \<open>if\<close>/\<open>elif\<close> chain; the first list with a keyword contained in the
  question selects the routine, which is run on the table.
\<close>

definition help_text :: string where
  "help_text = ''I can help you analyze various aspects of your business data. Try asking about **regional performance**, **monthly trends**, **profit margins**, **campaign effectiveness**, **customer satisfaction**, or **inventory levels**.''"

definition analyze_question :: "string \<Rightarrow> dataframe \<Rightarrow> error + result" where
  "analyze_question question df =
     (let question_lower = lower question
      in if any_word_in [''region'', ''regional'', ''geography'', ''location''] question_lower
         then analyze_regional_performance df
         else if any_word_in [''monthly'', ''trend'', ''time'', ''month'', ''over time''] question_lower
         then analyze_monthly_trends df
         else if any_word_in [''profit'', ''margin'', ''profitability'', ''cost''] question_lower
         then analyze_profit_margins df
         else if any_word_in [''campaign'', ''marketing'', ''promotion'', ''channel''] question_lower
         then analyze_campaign_performance df
         else if any_word_in [''satisfaction'', ''customer'', ''rating'', ''score''] question_lower
         then analyze_customer_satisfaction df
         else if any_word_in [''inventory'', ''stock'', ''warehouse'', ''levels''] question_lower
         then analyze_inventory df
         else if any_word_in [''category'', ''product'', ''department'', ''service''] question_lower
         then analyze_category_performance df
         else if any_word_in [''summary'', ''overview'', ''general'', ''what is the data showing'']
                   question_lower
         then generate_summary df
         else Inr (text_only help_text))"

section \<open>The conversation transcript\<close>

text \<open>
  A message of \<open>st.session_state.messages\<close> is a dictionary: a user message has the keys
  \<open>role\<close> and \<open>content\<close>; an assistant message may also have the keys \<open>chart\<close> and
  \<open>dataframe\<close> (outer \<open>None\<close>: the key is absent; \<open>Some None\<close>: the key holds Python's
  \<open>None\<close>).
\<close>

datatype message =
    UserMsg string
  | AssistantMsg "piece list" "chart option option" "frame option option"

text \<open>\<open>if "chart" in m: del m["chart"]\<close> and the same for \<open>dataframe\<close>.\<close>

fun del_chart :: "message \<Rightarrow> message" where
  "del_chart (UserMsg q) = UserMsg q"
| "del_chart (AssistantMsg t c d) = AssistantMsg t None d"

fun del_dataframe :: "message \<Rightarrow> message" where
  "del_dataframe (UserMsg q) = UserMsg q"
| "del_dataframe (AssistantMsg t c d) = AssistantMsg t c None"

text \<open>
  The answering block of the script: when the last message is a user message, the question
  is analysed, the answer is appended, and then the chart and dataframe keys of
  \<open>messages[-2]\<close> are deleted. An exception of the analysis ends the run.
\<close>

definition respond :: "dataframe \<Rightarrow> message list \<Rightarrow> error + message list" where
  "respond data messages =
     (if messages \<noteq> [] then
        (case last messages of
           UserMsg latest_question \<Rightarrow>
             (case analyze_question latest_question data of
                Inl e \<Rightarrow> Inl e
              | Inr response \<Rightarrow>
                  (let appended = messages @
                         [AssistantMsg (rtext response) (Some (rchart response))
                            (Some (rdataframe response))];
                       i = length appended - 2
                   in Inr (appended[i := del_dataframe (del_chart (appended ! i))])))
         | AssistantMsg t c d \<Rightarrow> Inr messages)
      else Inr messages)"

text \<open>
  One run of the script with a table loaded: a pressed button or a chat input appends a user
  message, the answering block runs, and a greeting is appended while the transcript holds no
  assistant message.
\<close>

datatype event = Ask string | Rerun

fun is_user :: "message \<Rightarrow> bool" where
  "is_user (UserMsg q) = True"
| "is_user (AssistantMsg t c d) = False"

definition greeting :: "dataframe \<Rightarrow> message" where
  "greeting data =
     AssistantMsg
       [Lit ''Great! I've loaded your data with '',
        Cnt '','' (int (nrows data)),
        Lit '' records. What would you like to analyze? You can use the **quick question buttons** above or ask me anything about your business performance data!'']
       None None"

definition script_run :: "dataframe \<Rightarrow> event \<Rightarrow> message list \<Rightarrow> error + message list" where
  "script_run data ev messages =
     (let asked = (case ev of Ask q \<Rightarrow> messages @ [UserMsg q] | Rerun \<Rightarrow> messages)
      in case respond data asked of
           Inl e \<Rightarrow> Inl e
         | Inr answered \<Rightarrow>
             Inr (if filter (\<lambda>m. \<not> is_user m) answered = []
                  then answered @ [greeting data] else answered))"

text \<open>A message holds a live payload when its chart or its dataframe key holds a value.\<close>

fun holds_payload :: "message \<Rightarrow> bool" where
  "holds_payload (UserMsg q) = False"
| "holds_payload (AssistantMsg t c d) =
     ((case c of Some (Some ch) \<Rightarrow> True | _ \<Rightarrow> False) \<or>
      (case d of Some (Some fr) \<Rightarrow> True | _ \<Rightarrow> False))"

section \<open>The generator\<close>

text \<open>
  The random draws of one record are an input of the model. A draw of the unit interval
  (\<open>random_sample\<close>, in \<open>[0, 1)\<close>) is a real number, a draw of an integer is a natural
  number. The library calls turn them into values as numpy and \<open>random\<close> document:
  \<open>uniform(lo, hi)\<close> is \<open>lo + (hi - lo) * u\<close>, \<open>np.random.randint(lo, hi)\<close> lies in
  \<open>[lo, hi)\<close>, \<open>random.randint(a, b)\<close> in \<open>[a, b]\<close>, \<open>choice\<close> without weights picks an
  index below the length, \<open>choice\<close> with weights picks the first entry whose cumulative
  weight exceeds the draw. Arithmetic is exact.
\<close>

record draws =
  r_date :: nat
  r_region :: real
  r_category :: real
  r_product :: nat
  r_segment :: real
  r_campaign :: nat
  r_units :: nat
  r_base_price :: real
  r_cost :: real
  r_inventory :: nat
  r_return :: real
  r_order :: nat
  r_customer :: nat
  r_conversion :: real
  r_satisfaction :: real

definition unit_draw :: "real \<Rightarrow> bool" where
  "unit_draw u = (0 \<le> u \<and> u < 1)"

definition unit_draws :: "draws \<Rightarrow> bool" where
  "unit_draws d =
     (unit_draw (r_region d) \<and> unit_draw (r_category d) \<and> unit_draw (r_segment d) \<and>
      unit_draw (r_base_price d) \<and> unit_draw (r_cost d) \<and> unit_draw (r_return d) \<and>
      unit_draw (r_conversion d) \<and> unit_draw (r_satisfaction d))"

definition uniform :: "real \<Rightarrow> real \<Rightarrow> real \<Rightarrow> real" where
  "uniform lo hi u = lo + (hi - lo) * u"

definition np_randint :: "nat \<Rightarrow> nat \<Rightarrow> nat \<Rightarrow> nat" where
  "np_randint lo hi k = lo + k mod (hi - lo)"

definition py_randint :: "nat \<Rightarrow> nat \<Rightarrow> nat \<Rightarrow> nat" where
  "py_randint a b k = a + k mod (b - a + 1)"

definition choice :: "'a list \<Rightarrow> nat \<Rightarrow> 'a" where
  "choice xs k = xs ! (k mod length xs)"

fun cumsum :: "real \<Rightarrow> real list \<Rightarrow> real list" where
  "cumsum acc [] = []"
| "cumsum acc (p # ps) = (acc + p) # cumsum (acc + p) ps"

definition choice_p :: "'a list \<Rightarrow> real list \<Rightarrow> real \<Rightarrow> 'a" where
  "choice_p xs ps u = xs ! length (filter (\<lambda>c. c \<le> u) (cumsum 0 ps))"

definition REGIONS :: "string list" where
  "REGIONS = [''North'', ''South'', ''East'', ''West'']"

definition PRODUCT_CATEGORIES :: "string list" where
  "PRODUCT_CATEGORIES = [''Electronics'', ''Services'', ''Software'', ''Apparel'']"

definition PRODUCT_NAMES :: "(string \<times> string list) list" where
  "PRODUCT_NAMES =
     [(''Electronics'', [''Deluxe Widget'', ''Smart Monitor'', ''E-Reader'', ''Wireless Headphones'']),
      (''Services'', [''Consulting Hour'', ''Maintenance Contract'', ''Premium Support'',
                      ''Installation Service'']),
      (''Software'', [''Cloud Subscription'', ''Data Analytics Tool'', ''ERP Module'', ''CRM Suite'']),
      (''Apparel'', [''T-Shirt'', ''Polo Shirt'', ''Jacket'', ''Hoodie''])]"

definition CUSTOMER_SEGMENTS :: "string list" where
  "CUSTOMER_SEGMENTS = [''Retail'', ''Wholesale'', ''Online'']"

definition CAMPAIGN_NAMES :: "string list" where
  "CAMPAIGN_NAMES = [''Spring Promo'', ''Summer Sale'', ''Holiday Sale'', ''Back-to-School'', ''Q1 Launch'']"

text \<open>The local variables of the loop body, as functions of the draws.\<close>

definition region_of :: "draws \<Rightarrow> string" where
  "region_of d = choice_p REGIONS [0.25, 0.25, 0.25, 0.25] (r_region d)"

definition category_of :: "draws \<Rightarrow> string" where
  "category_of d = choice_p PRODUCT_CATEGORIES [0.3, 0.2, 0.3, 0.2] (r_category d)"

text \<open>\<open>PRODUCT_NAMES[category]\<close>; the category is one of the four keys.\<close>

definition product_name_of :: "draws \<Rightarrow> string" where
  "product_name_of d =
     choice (case map_of PRODUCT_NAMES (category_of d) of Some names \<Rightarrow> names | None \<Rightarrow> [])
       (r_product d)"

definition customer_segment_of :: "draws \<Rightarrow> string" where
  "customer_segment_of d = choice_p CUSTOMER_SEGMENTS [0.4, 0.1, 0.5] (r_segment d)"

definition campaign_name_of :: "draws \<Rightarrow> string" where
  "campaign_name_of d = choice CAMPAIGN_NAMES (r_campaign d)"

definition units_sold_of :: "draws \<Rightarrow> nat" where
  "units_sold_of d = np_randint 10 300 (r_units d)"

definition base_price_of :: "draws \<Rightarrow> real" where
  "base_price_of d =
     (if category_of d = ''Electronics'' then uniform 150 800 (r_base_price d)
      else if category_of d = ''Software'' then uniform 500 2500 (r_base_price d)
      else if category_of d = ''Services'' then uniform 100 600 (r_base_price d)
      else uniform 20 150 (r_base_price d))"

definition revenue_of :: "draws \<Rightarrow> real" where
  "revenue_of d =
     (let revenue = of_nat (units_sold_of d) * base_price_of d;
          revenue = (if region_of d = ''North'' \<and> category_of d = ''Electronics''
                     then revenue * 1.15 else revenue);
          revenue = (if region_of d = ''South'' \<and> category_of d = ''Apparel''
                     then revenue * 1.2 else revenue);
          revenue = (if contains ''Holiday'' (campaign_name_of d)
                     then revenue * 1.25 else revenue);
          revenue = (if contains ''Summer'' (campaign_name_of d)
                     then revenue * 1.1 else revenue)
      in revenue)"

definition cost_of :: "draws \<Rightarrow> real" where
  "cost_of d = revenue_of d * uniform 0.5 0.75 (r_cost d)"

definition profit_of :: "draws \<Rightarrow> real" where
  "profit_of d = revenue_of d - cost_of d"

definition profit_margin_of :: "draws \<Rightarrow> real" where
  "profit_margin_of d = round_to 2 ((profit_of d / revenue_of d) * 100)"

definition physical_goods :: "string \<Rightarrow> bool" where
  "physical_goods category = (category \<in> set [''Electronics'', ''Apparel''])"

definition inventory_level_of :: "draws \<Rightarrow> nat option" where
  "inventory_level_of d =
     (if physical_goods (category_of d) then Some (np_randint 100 5000 (r_inventory d))
      else None)"

definition return_rate_of :: "draws \<Rightarrow> real" where
  "return_rate_of d =
     (if physical_goods (category_of d) then uniform 0.01 0.1 (r_return d) else 0)"

text \<open>
  The record appended for one iteration. The date is kept as the number of days after
  \<open>START_DATE\<close>; the calendar fields derived from it (Month, Quarter, Year, Week_Number)
  and the formatting of the identifiers are not modelled.
\<close>

record transaction =
  t_Date :: nat
  t_Region :: string
  t_Product_Service_Name :: string
  t_Category_Department :: string
  t_Revenue :: real
  t_Cost :: real
  t_Profit :: real
  t_Profit_Margin_pct :: real
  t_Units_Sold :: nat
  t_Inventory_Level :: "nat option"
  t_Return_Rate_pct :: real
  t_Order_ID :: nat
  t_Customer_ID :: nat
  t_Customer_Segment :: string
  t_Campaign_Name :: string
  t_Conversion_Rate_pct :: real
  t_Customer_Satisfaction_Score :: nat
  t_Average_Order_Value :: real

definition generate_record :: "draws \<Rightarrow> transaction" where
  "generate_record d =
     \<lparr>t_Date = py_randint 0 540 (r_date d),
      t_Region = region_of d,
      t_Product_Service_Name = product_name_of d,
      t_Category_Department = category_of d,
      t_Revenue = round_to 2 (revenue_of d),
      t_Cost = round_to 2 (cost_of d),
      t_Profit = round_to 2 (profit_of d),
      t_Profit_Margin_pct = profit_margin_of d,
      t_Units_Sold = units_sold_of d,
      t_Inventory_Level = inventory_level_of d,
      t_Return_Rate_pct = round_to 3 (return_rate_of d),
      t_Order_ID = py_randint 100000 999999 (r_order d),
      t_Customer_ID = np_randint 10000 99999 (r_customer d),
      t_Customer_Segment = customer_segment_of d,
      t_Campaign_Name = campaign_name_of d,
      t_Conversion_Rate_pct = round_to 3 (uniform 0.02 0.15 (r_conversion d)),
      t_Customer_Satisfaction_Score =
        choice_p [1, 2, 3, 4, 5] [0.05, 0.1, 0.2, 0.4, 0.25] (r_satisfaction d),
      t_Average_Order_Value = round_to 2 (revenue_of d / of_nat (units_sold_of d))\<rparr>"

text \<open>\<open>generate_business_data(num_records)\<close>: one record per iteration, from that iteration's draws.\<close>

definition generate_business_data :: "nat \<Rightarrow> (nat \<Rightarrow> draws) \<Rightarrow> transaction list" where
  "generate_business_data num_records rng = map (\<lambda>i. generate_record (rng i)) [0..<num_records]"

section \<open>The classifier as the specification words it\<close>

text \<open>
  The specification describes the classifier as an ordered table of intents with their
  keyword sets, of which the first one with a keyword contained in the lower-cased question
  wins, and a dispatch from the intent to its routine. These definitions follow the
  specification's words; they are compared with \<open>analyze_question\<close> below.
\<close>

datatype intent =
  Regional | Monthly | Margin | Campaign | Satisfaction | Inventory | Category | Summary

definition intent_keywords :: "(intent \<times> string list) list" where
  "intent_keywords =
     [(Regional, [''region'', ''regional'', ''geography'', ''location'']),
      (Monthly, [''monthly'', ''trend'', ''time'', ''month'', ''over time'']),
      (Margin, [''profit'', ''margin'', ''profitability'', ''cost'']),
      (Campaign, [''campaign'', ''marketing'', ''promotion'', ''channel'']),
      (Satisfaction, [''satisfaction'', ''customer'', ''rating'', ''score'']),
      (Inventory, [''inventory'', ''stock'', ''warehouse'', ''levels'']),
      (Category, [''category'', ''product'', ''department'', ''service'']),
      (Summary, [''summary'', ''overview'', ''general'', ''what is the data showing''])]"

definition first_matching_intent :: "string \<Rightarrow> intent option" where
  "first_matching_intent question =
     map_option fst
       (find (\<lambda>(i, kws). list_ex (\<lambda>w. contains w (lower question)) kws) intent_keywords)"

fun run_intent :: "intent \<Rightarrow> dataframe \<Rightarrow> error + result" where
  "run_intent Regional df = analyze_regional_performance df"
| "run_intent Monthly df = analyze_monthly_trends df"
| "run_intent Margin df = analyze_profit_margins df"
| "run_intent Campaign df = analyze_campaign_performance df"
| "run_intent Satisfaction df = analyze_customer_satisfaction df"
| "run_intent Inventory df = analyze_inventory df"
| "run_intent Category df = analyze_category_performance df"
| "run_intent Summary df = generate_summary df"

section \<open>Example tables\<close>

text \<open>Three rows in two regions, with all the columns the Regional routine reads.\<close>

definition example_table :: dataframe where
  "example_table =
     \<lparr>nrows = 3, Date = None,
      Region = Some [Some ''North'', Some ''South'', Some ''North''],
      Product_Service_Name = None, Category_Department = None, Campaign_Name = None,
      Revenue = Some [Some 100, Some 300, Some 50],
      Profit = Some [Some 20, Some 30, Some 5],
      Units_Sold = Some [Some 1, Some 2, Some 3],
      Customer_Satisfaction_Score = None, Inventory_Level = None\<rparr>"

text \<open>The same table without its Revenue column.\<close>

definition table_without_revenue :: dataframe where
  "table_without_revenue = example_table\<lparr>Revenue := None\<rparr>"

text \<open>The same table with the columns Region and Revenue only among those the routines read.\<close>

definition table_without_profit :: dataframe where
  "table_without_profit = example_table\<lparr>Profit := None, Units_Sold := None\<rparr>"

text \<open>A table whose North region has revenue 0 and profit 5.\<close>

definition table_zero_revenue :: dataframe where
  "table_zero_revenue =
     \<lparr>nrows = 2, Date = None,
      Region = Some [Some ''North'', Some ''South''],
      Product_Service_Name = None, Category_Department = None, Campaign_Name = None,
      Revenue = Some [Some 0, Some 200],
      Profit = Some [Some 5, Some 50],
      Units_Sold = Some [Some 1, Some 2],
      Customer_Satisfaction_Score = None, Inventory_Level = None\<rparr>"


text \<open>
  Twelve products with the same revenue and the profits 1 to 12, so with twelve different
  profit margins.
\<close>

definition table_twelve_products :: dataframe where
  "table_twelve_products =
     \<lparr>nrows = 12, Date = None, Region = None,
      Product_Service_Name =
        Some [Some ''A'', Some ''B'', Some ''C'', Some ''D'', Some ''E'', Some ''F'',
              Some ''G'', Some ''H'', Some ''I'', Some ''J'', Some ''K'', Some ''L''],
      Category_Department = None, Campaign_Name = None,
      Revenue = Some [Some 100, Some 100, Some 100, Some 100, Some 100, Some 100,
                      Some 100, Some 100, Some 100, Some 100, Some 100, Some 100],
      Profit = Some [Some 1, Some 2, Some 3, Some 4, Some 5, Some 6,
                     Some 7, Some 8, Some 9, Some 10, Some 11, Some 12],
      Units_Sold = Some [Some 1, Some 1, Some 1, Some 1, Some 1, Some 1,
                         Some 1, Some 1, Some 1, Some 1, Some 1, Some 1],
      Customer_Satisfaction_Score = None, Inventory_Level = None\<rparr>"

section \<open>Example draws\<close>

text \<open>
  The draws of one iteration that give an Electronics sale in the North region during the
  "Holiday Sale" campaign: 50 units at the base price 475.
\<close>

definition example_draws :: draws where
  "example_draws =
     \<lparr>r_date = 100, r_region = 1 / 10, r_category = 1 / 10, r_product = 1, r_segment = 1 / 2,
      r_campaign = 2, r_units = 40, r_base_price = 1 / 2, r_cost = 2 / 5, r_inventory = 900,
      r_return = 1 / 2, r_order = 5, r_customer = 7, r_conversion = 1 / 2,
      r_satisfaction = 1 / 2\<rparr>"

text \<open>The same draws with the smallest draw for the return rate, and with one close to 1.\<close>

definition draws_return_low :: draws where
  "draws_return_low = example_draws\<lparr>r_return := 0\<rparr>"

definition draws_return_high :: draws where
  "draws_return_high = example_draws\<lparr>r_return := 999 / 1000\<rparr>"

section \<open>Properties of the classifier\<close>

lemma starts_with_map: "starts_with w s \<Longrightarrow> starts_with (map f w) (map f s)"
  by (induction w s rule: starts_with.induct) auto

lemma contains_map: "contains w s \<Longrightarrow> contains (map f w) (map f s)"
proof (induction s)
  case Nil
  then show ?case by simp
next
  case (Cons c s)
  then show ?case
    using starts_with_map [of w "c # s" f] by auto
qed

lemma contains_lower: "contains w s \<Longrightarrow> contains (lower w) (lower s)"
  unfolding lower_def by (rule contains_map)

lemma lower_region: "lower ''region'' = ''region''"
  by (simp add: lower_def lower_char_def)

lemma dispatch_refines:
  "analyze_question question df =
     (case first_matching_intent question of
        Some i \<Rightarrow> run_intent i df
      | None \<Rightarrow> Inr (text_only help_text))"
  by (simp add: analyze_question_def first_matching_intent_def intent_keywords_def
      any_word_in_def Let_def)

text \<open>
  Claim C1. For every question and table, \<open>analyze_question\<close> runs the routine of the first
  intent, in the order Regional, Monthly, Margin, Campaign, Satisfaction, Inventory, Category,
  Summary, whose keyword list has a member contained in the lower-cased question, and
  returns the help message when there is none. In particular a question that contains both
  "region" and "profit" is answered by the Regional routine.
\<close>

theorem classifier_priority:
  "analyze_question question df =
     (case first_matching_intent question of
        Some i \<Rightarrow> run_intent i df
      | None \<Rightarrow> Inr (text_only help_text))
   \<and> (contains ''region'' question \<and> contains ''profit'' question \<longrightarrow>
        first_matching_intent question = Some Regional \<and>
        analyze_question question df = analyze_regional_performance df)"
proof -
  have "contains ''region'' (lower question)" if "contains ''region'' question"
    using contains_lower [OF that] lower_region by simp
  then have "contains ''region'' question \<Longrightarrow> first_matching_intent question = Some Regional"
    by (simp add: first_matching_intent_def intent_keywords_def)
  then show ?thesis
    using dispatch_refines [of question df] by auto
qed

theorem classifier_priority_witness:
  "contains ''region'' ''regional profit breakdown'' \<and>
   contains ''profit'' ''regional profit breakdown'' \<and>
   first_matching_intent ''regional profit breakdown'' = Some Regional \<and>
   analyze_question ''regional profit breakdown'' example_table =
     analyze_regional_performance example_table"
  using classifier_priority [of "''regional profit breakdown''" example_table]
  by simp

text \<open>
  Claim C2 says that no exception of an analysis routine reaches the caller of the
  classifier. The Regional routine guards the columns Region and Revenue only and then
  aggregates Profit and Units_Sold: on a table that has Region and Revenue but neither of
  the other two, the question of the "Regional Performance" button raises KeyError, which
  \<open>analyze_question\<close> passes on.
\<close>

theorem missing_profit_raises:
  "analyze_question ''Show me revenue performance by region'' table_without_profit =
     Inl (KeyError [''Profit'', ''Units_Sold''])"
  by code_simp

section \<open>Properties of the analysis routines\<close>

text \<open>
  Claim C3 says that a group whose summed revenue is zero gets the profit margin 0. The
  routines replace NaN by 0 after the division; a zero revenue with a profit that is not
  zero divides to an infinity, which \<open>fillna\<close> leaves. In the table below the North region
  has revenue 0 and profit 5, and its Profit_Margin in the returned table is infinite.
\<close>

theorem zero_revenue_margin_is_infinite:
  "(case analyze_regional_performance table_zero_revenue of
      Inr r \<Rightarrow>
        map_option
          (\<lambda>fr. map (\<lambda>(k, row). (k, cell row ''Revenue'', cell row ''Profit_Margin'')) (rows fr))
          (rdataframe r)
    | Inl e \<Rightarrow> None) =
   Some [(Name ''South'', Fin 200, Fin 25), (Name ''North'', Fin 0, PInf)]"
  by code_simp

text \<open>
  Claim C4. For every table that lacks the Region column or the Revenue column, the
  Regional routine returns a result (no exception) whose text is one literal message
  containing "requires" and which has neither a chart nor a table.
\<close>

theorem regional_missing_column_soft_failure:
  "Region df = None \<or> Revenue df = None \<Longrightarrow>
   \<exists>r s. analyze_regional_performance df = Inr r \<and> rtext r = [Lit s] \<and>
         contains ''requires'' s \<and> rchart r = None \<and> rdataframe r = None"
  by (auto simp: analyze_regional_performance_def text_only_def split: option.splits)

theorem regional_missing_column_soft_failure_witness:
  "Revenue table_without_revenue = None \<and>
   (\<exists>r s. analyze_regional_performance table_without_revenue = Inr r \<and> rtext r = [Lit s] \<and>
         contains ''requires'' s \<and> rchart r = None \<and> rdataframe r = None)"
  using regional_missing_column_soft_failure [of table_without_revenue]
  by (simp add: table_without_revenue_def)

section \<open>Properties of the transcript\<close>

text \<open>
  Claim C5 says that appending an answer discards the chart and table of every earlier
  answer. The script deletes the two keys from \<open>messages[-2]\<close>, which after the append is
  the user's question, not the previous answer. After two questions on the example table
  the transcript is question, answer, question, answer, and both answers hold their
  payload.
\<close>

theorem second_answer_keeps_first_payload:
  "(case script_run example_table (Ask ''Show me revenue performance by region'') [] of
      Inr first_run \<Rightarrow>
        (case script_run example_table (Ask ''regional profit breakdown'') first_run of
           Inr second_run \<Rightarrow> map holds_payload second_run
         | Inl e \<Rightarrow> [])
    | Inl e \<Rightarrow> []) = [False, True, False, True]"
  by code_simp

section \<open>Properties of the Inventory routine\<close>





section \<open>Properties of the Margin routine\<close>

text \<open>
  \<open>sort_values_desc\<close> permutes its argument; in its result no later row has a greater
  sort value than an earlier one, and when no sort value is NaN every earlier row has a sort
  value at least that of every later row.
\<close>

lemma desc_before_asym: "desc_before a b \<Longrightarrow> \<not> desc_before b a"
  by (cases a; cases b) (auto simp: desc_before_def)

lemma desc_before_neg_trans:
  "\<not> desc_before b a \<Longrightarrow> \<not> desc_before c b \<Longrightarrow> \<not> desc_before c a"
  by (cases a; cases b; cases c) (auto simp: desc_before_def)

lemma set_insert_desc: "set (insert_desc f a xs) = insert a (set xs)"
  by (induction xs) auto

lemma length_insert_desc: "length (insert_desc f a xs) = Suc (length xs)"
  by (induction xs) auto

lemma set_sort_values_desc: "set (sort_values_desc f xs) = set xs"
  by (induction xs) (auto simp: sort_values_desc_def set_insert_desc)

lemma length_sort_values_desc: "length (sort_values_desc f xs) = length xs"
  by (induction xs) (auto simp: sort_values_desc_def length_insert_desc)

lemma distinct_map_insert_desc:
  "distinct (map g (insert_desc f a xs)) = (g a \<notin> g ` set xs \<and> distinct (map g xs))"
  by (induction xs) (auto simp: set_insert_desc)

lemma distinct_map_sort_values_desc:
  "distinct (map g (sort_values_desc f xs)) = distinct (map g xs)"
  by (induction xs)
    (auto simp: sort_values_desc_def distinct_map_insert_desc set_sort_values_desc [unfolded sort_values_desc_def])

lemma sorted_insert_desc:
  "sorted_wrt (\<lambda>x y. \<not> desc_before (f y) (f x)) xs \<Longrightarrow>
   sorted_wrt (\<lambda>x y. \<not> desc_before (f y) (f x)) (insert_desc f a xs)"
proof (induction xs)
  case Nil
  then show ?case by simp
next
  case (Cons b bs)
  show ?case
  proof (cases "desc_before (f b) (f a)")
    case True
    then have "\<not> desc_before (f a) (f b)" by (rule desc_before_asym)
    with True Cons show ?thesis by (auto simp: set_insert_desc)
  next
    case False
    have "\<not> desc_before (f x) (f a)" if "x \<in> set bs" for x
      using that Cons.prems False desc_before_neg_trans [of "f b" "f a" "f x"] by auto
    with False Cons.prems show ?thesis by auto
  qed
qed

lemma sorted_sort_values_desc:
  "sorted_wrt (\<lambda>x y. \<not> desc_before (f y) (f x)) (sort_values_desc f xs)"
  by (induction xs) (auto simp: sort_values_desc_def intro: sorted_insert_desc)

lemma sort_values_desc_no_later_greater:
  assumes "i < j" "j < length (sort_values_desc f xs)"
  shows "\<not> fgt (f (sort_values_desc f xs ! j)) (f (sort_values_desc f xs ! i))"
proof -
  have "\<not> desc_before (f (sort_values_desc f xs ! j)) (f (sort_values_desc f xs ! i))"
    using sorted_sort_values_desc [of f xs] assms by (auto simp: sorted_wrt_iff_nth_less)
  then show ?thesis by (simp add: desc_before_def)
qed

text \<open>
  The rows of the Margin routine's table: one per group, holding the rounded sums of the
  group and the margin computed from them, which is never NaN.
\<close>

lemma set_group_keys: "set (group_keys ks) = set (present ks)"
  by (simp add: group_keys_def)

lemma distinct_group_keys: "distinct (group_keys ks)"
  by (simp add: group_keys_def)

lemma map_fst_sums_with_margin:
  "map fst (sums_with_margin ks revenue profit units) = map Name (group_keys ks)"
  by (simp add: sums_with_margin_def Let_def comp_def)

lemma profit_data_keys:
  "set (map fst (profit_data ks revenue profit units)) = Name ` set (present ks)"
  "distinct (map fst (profit_data ks revenue profit units))"
  "length (profit_data ks revenue profit units) = card (set (present ks))"
proof -
  have "set (map fst (profit_data ks revenue profit units)) =
        fst ` set (sums_with_margin ks revenue profit units)"
    by (simp add: profit_data_def set_sort_values_desc)
  also have "\<dots> = set (map fst (sums_with_margin ks revenue profit units))"
    by simp
  also have "\<dots> = Name ` set (present ks)"
    by (simp only: map_fst_sums_with_margin set_map set_group_keys)
  finally show "set (map fst (profit_data ks revenue profit units)) = Name ` set (present ks)" .
  have "distinct (map Name (group_keys ks))"
    by (simp add: distinct_map distinct_group_keys inj_on_def)
  then show "distinct (map fst (profit_data ks revenue profit units))"
    by (simp only: profit_data_def distinct_map_sort_values_desc map_fst_sums_with_margin)
  have "length (profit_data ks revenue profit units) = length (group_keys ks)"
    by (simp add: profit_data_def length_sort_values_desc sums_with_margin_def)
  also have "\<dots> = card (set (present ks))"
    using distinct_card [OF distinct_group_keys, of ks] by (simp add: set_group_keys)
  finally show "length (profit_data ks revenue profit units) = card (set (present ks))" .
qed

lemma fge_of_not_desc_before:
  "a \<noteq> NaN \<Longrightarrow> b \<noteq> NaN \<Longrightarrow> \<not> desc_before b a \<Longrightarrow> fge a b"
  by (cases a; cases b) (auto simp: desc_before_def fge_def)

lemma sort_values_desc_descending:
  assumes "\<forall>x\<in>set xs. f x \<noteq> NaN" and "i < j" and "j < length (sort_values_desc f xs)"
  shows "fge (f (sort_values_desc f xs ! i)) (f (sort_values_desc f xs ! j))"
proof -
  have nd: "\<not> desc_before (f (sort_values_desc f xs ! j)) (f (sort_values_desc f xs ! i))"
    using sorted_sort_values_desc [of f xs] assms(2,3) by (auto simp: sorted_wrt_iff_nth_less)
  have "sort_values_desc f xs ! i \<in> set xs" "sort_values_desc f xs ! j \<in> set xs"
    using assms(2,3) nth_mem [of i "sort_values_desc f xs"] nth_mem [of j "sort_values_desc f xs"]
    by (simp_all add: set_sort_values_desc)
  with assms(1) have "f (sort_values_desc f xs ! i) \<noteq> NaN" "f (sort_values_desc f xs ! j) \<noteq> NaN"
    by simp_all
  then show ?thesis
    using nd by (rule fge_of_not_desc_before)
qed

lemma margin_value:
  "fillna0 (fround 2 (fmul (fdiv (Fin p) (Fin r)) (Fin 100))) =
     (if r \<noteq> 0 then Fin (round_to 2 (p / r * 100))
      else if 0 < p then PInf else if p < 0 then NInf else Fin 0)"
  by simp

lemma sums_with_margin_rows:
  assumes "(k, row) \<in> set (sums_with_margin ks revenue profit units)"
  shows "\<exists>g\<in>set (present ks). k = Name g \<and>
           cell row ''Revenue'' = Fin (round_to 2 (col_sum (group_of ks revenue g))) \<and>
           cell row ''Profit'' = Fin (round_to 2 (col_sum (group_of ks profit g))) \<and>
           cell row ''Profit_Margin'' =
             (if round_to 2 (col_sum (group_of ks revenue g)) \<noteq> 0
              then Fin (round_to 2 (round_to 2 (col_sum (group_of ks profit g)) /
                                    round_to 2 (col_sum (group_of ks revenue g)) * 100))
              else if 0 < round_to 2 (col_sum (group_of ks profit g)) then PInf
              else if round_to 2 (col_sum (group_of ks profit g)) < 0 then NInf
              else Fin 0)"
proof -
  from assms obtain g where g: "g \<in> set (group_keys ks)" and k: "k = Name g"
    and row: "row = agg_sum_round2 ks
                 [(''Revenue'', revenue), (''Profit'', profit), (''Units_Sold'', units)] g
               @ [(''Profit_Margin'', Profit_Margin (agg_sum_round2 ks
                 [(''Revenue'', revenue), (''Profit'', profit), (''Units_Sold'', units)] g))]"
    by (auto simp: sums_with_margin_def Let_def)
  have c1: "cell row ''Revenue'' = Fin (round_to 2 (col_sum (group_of ks revenue g)))"
    and c2: "cell row ''Profit'' = Fin (round_to 2 (col_sum (group_of ks profit g)))"
    by (simp_all add: row cell_def agg_sum_round2_def)
  have "cell row ''Profit_Margin'' =
        fillna0 (fround 2 (fmul (fdiv (Fin (round_to 2 (col_sum (group_of ks profit g))))
                                      (Fin (round_to 2 (col_sum (group_of ks revenue g)))))
                                (Fin 100)))"
    by (simp add: row cell_def agg_sum_round2_def Profit_Margin_def)
  then have c3: "cell row ''Profit_Margin'' =
             (if round_to 2 (col_sum (group_of ks revenue g)) \<noteq> 0
              then Fin (round_to 2 (round_to 2 (col_sum (group_of ks profit g)) /
                                    round_to 2 (col_sum (group_of ks revenue g)) * 100))
              else if 0 < round_to 2 (col_sum (group_of ks profit g)) then PInf
              else if round_to 2 (col_sum (group_of ks profit g)) < 0 then NInf
              else Fin 0)"
    by (simp only: margin_value)
  from g have "g \<in> set (present ks)" by (simp add: set_group_keys)
  with k c1 c2 c3 show ?thesis by blast
qed

lemma sums_with_margin_not_nan:
  "x \<in> set (sums_with_margin ks revenue profit units) \<Longrightarrow>
   (\<lambda>(k, r). cell r ''Profit_Margin'') x \<noteq> NaN"
  using sums_with_margin_rows [of "fst x" "snd x" ks revenue profit units]
  by (auto simp: case_prod_beta split: if_splits)

lemma map_filter_append:
  "List.map_filter f (xs @ ys) = List.map_filter f xs @ List.map_filter f ys"
  by (simp add: List.map_filter_def)

lemma margin_lines_items:
  "List.map_filter (\<lambda>p. case p of Sub k \<Rightarrow> Some k | _ \<Rightarrow> None) (margin_lines items) =
     map fst items"
proof -
  have a: "List.map_filter (\<lambda>p. case p of Sub k \<Rightarrow> Some k | _ \<Rightarrow> None)
             (concat (map (\<lambda>(i, (item, r)).
               [Lit (''\<newline>''), Cnt [] (int i + 1), Lit (''. **''), Sub item, Lit ('':** ''),
                Flt [] (cell r ''Profit_Margin''), Lit (''% margin ($''),
                Flt '',.0f'' (cell r ''Revenue''), Lit ('' revenue)'')]) ps)) =
           map (\<lambda>p. fst (snd p)) ps" for ps :: "(nat \<times> key \<times> row) list"
    by (induction ps) (auto simp: map_filter_append List.map_filter_simps)
  have c: "map (\<lambda>p. fst (snd p)) (zip [0..<length items] items) = map fst items"
    by (rule nth_equalityI) simp_all
  show ?thesis
    by (simp only: margin_lines_def enumerate_from0_def a c)
qed

text \<open>
  Claim C10. Whenever the Margin routine returns a chart, its table of groups has exactly one
  row for every distinct group of the table. The row of a group holds the group's summed
  revenue and profit, rounded to two decimals, and as profit margin 100 times their
  quotient rounded to two decimals (an infinity when the revenue is zero and the profit is
  not, 0 when both are zero). The rows are in descending order of profit margin. The chart
  and the returned table both hold the first 10 rows, so every group they show has a profit
  margin at least that of every group they leave out, and they hold 10 rows when there are
  more than 10 groups. The groups named in the text are the top group followed by those of
  the first 5 rows, and the text ends with the numbered lines of the first 5 rows.
\<close>

theorem margin_top10:
  assumes "analyze_profit_margins df = Inr r" and "rchart r = Some fig"
  shows "\<exists>ks revenue profit units data.
           group_col_keys df = Some ks \<and> Revenue df = Some revenue \<and>
           Profit df = Some profit \<and> Units_Sold df = Some units \<and>
           data = profit_data ks revenue profit units \<and>
           set (map fst data) = Name ` set (present ks) \<and> distinct (map fst data) \<and>
           (\<forall>(k, row)\<in>set data. \<exists>g\<in>set (present ks). k = Name g \<and>
              cell row ''Revenue'' = Fin (round_to 2 (col_sum (group_of ks revenue g))) \<and>
              cell row ''Profit'' = Fin (round_to 2 (col_sum (group_of ks profit g))) \<and>
              cell row ''Profit_Margin'' =
                (if round_to 2 (col_sum (group_of ks revenue g)) \<noteq> 0
                 then Fin (round_to 2 (round_to 2 (col_sum (group_of ks profit g)) /
                                       round_to 2 (col_sum (group_of ks revenue g)) * 100))
                 else if 0 < round_to 2 (col_sum (group_of ks profit g)) then PInf
                 else if round_to 2 (col_sum (group_of ks profit g)) < 0 then NInf
                 else Fin 0)) \<and>
           (\<forall>i j. i < j \<and> j < length data \<longrightarrow>
              fge (cell (snd (data ! i)) ''Profit_Margin'')
                  (cell (snd (data ! j)) ''Profit_Margin'')) \<and>
           rows (chart_data fig) = take 10 data \<and>
           map_option rows (rdataframe r) = Some (take 10 data) \<and>
           (\<forall>x\<in>set (take 10 data). \<forall>y\<in>set (drop 10 data).
              fge (cell (snd x) ''Profit_Margin'') (cell (snd y) ''Profit_Margin'')) \<and>
           length (rows (chart_data fig)) = min 10 (card (set (present ks))) \<and>
           List.map_filter (\<lambda>p. case p of Sub k \<Rightarrow> Some k | _ \<Rightarrow> None) (rtext r) =
             fst (hd data) # map fst (take 5 data) \<and>
           (\<exists>head. rtext r = head @ margin_lines (take 5 data))"
proof -
  from assms obtain ks revenue profit units where cols:
    "group_col_keys df = Some ks" "Revenue df = Some revenue"
    "Profit df = Some profit" "Units_Sold df = Some units"
    by (auto simp: analyze_profit_margins_def text_only_def split: option.splits)
  define data where "data = profit_data ks revenue profit units"
  from assms cols have res:
    "rows (chart_data fig) = take 10 data"
    "map_option rows (rdataframe r) = Some (take 10 data)"
    by (auto simp: analyze_profit_margins_def Let_def data_def split: list.splits)
  from assms cols have rt:
    "rtext r = margin_text (fst (hd data)) (cell (snd (hd data)) ''Profit_Margin'')
                 (fmean (column ''Profit_Margin'' data)) data"
    by (auto simp: analyze_profit_margins_def Let_def data_def split: list.splits)
  have subs: "List.map_filter (\<lambda>p. case p of Sub k \<Rightarrow> Some k | _ \<Rightarrow> None) (rtext r) =
              fst (hd data) # map fst (take 5 data)"
    unfolding rt margin_text_def
    by (simp add: map_filter_append margin_lines_items List.map_filter_simps)
  have tail: "\<exists>head. rtext r = head @ margin_lines (take 5 data)"
    unfolding rt margin_text_def by blast
  have set_data: "set data = set (sums_with_margin ks revenue profit units)"
    by (simp add: data_def profit_data_def set_sort_values_desc)
  have cells: "\<forall>(k, row)\<in>set data. \<exists>g\<in>set (present ks). k = Name g \<and>
              cell row ''Revenue'' = Fin (round_to 2 (col_sum (group_of ks revenue g))) \<and>
              cell row ''Profit'' = Fin (round_to 2 (col_sum (group_of ks profit g))) \<and>
              cell row ''Profit_Margin'' =
                (if round_to 2 (col_sum (group_of ks revenue g)) \<noteq> 0
                 then Fin (round_to 2 (round_to 2 (col_sum (group_of ks profit g)) /
                                       round_to 2 (col_sum (group_of ks revenue g)) * 100))
                 else if 0 < round_to 2 (col_sum (group_of ks profit g)) then PInf
                 else if round_to 2 (col_sum (group_of ks profit g)) < 0 then NInf
                 else Fin 0)"
    unfolding set_data using sums_with_margin_rows [of _ _ ks revenue profit units] by blast
  have nn: "\<forall>x\<in>set (sums_with_margin ks revenue profit units).
              (\<lambda>(k, r). cell r ''Profit_Margin'') x \<noteq> NaN"
    using sums_with_margin_not_nan [of _ ks revenue profit units] by blast
  have order: "fge (cell (snd (data ! i)) ''Profit_Margin'')
                   (cell (snd (data ! j)) ''Profit_Margin'')"
    if "i < j" "j < length data" for i j
    using sort_values_desc_descending
      [OF nn, of i j] that
    by (simp add: data_def profit_data_def case_prod_unfold)
  have top: "fge (cell (snd x) ''Profit_Margin'') (cell (snd y) ''Profit_Margin'')"
    if x: "x \<in> set (take 10 data)" and y: "y \<in> set (drop 10 data)" for x y
  proof -
    from x obtain i where i: "i < length (take 10 data)" "take 10 data ! i = x"
      by (auto simp: in_set_conv_nth)
    from y obtain j where j: "j < length (drop 10 data)" "drop 10 data ! j = y"
      by (auto simp: in_set_conv_nth)
    from i have xi: "x = data ! i" and i10: "i < 10" by auto
    from j have yj: "y = data ! (10 + j)" and jl: "10 + j < length data" by auto
    from i10 have "i < 10 + j" by simp
    from order [OF this jl] show ?thesis by (simp add: xi yj)
  qed
  have len: "length (rows (chart_data fig)) = min 10 (card (set (present ks)))"
    using res(1) profit_data_keys(3) [of ks revenue profit units] by (simp add: data_def)
  show ?thesis
    using cols res subs tail cells order top len
      profit_data_keys(1,2) [of ks revenue profit units]
    unfolding data_def by blast
qed

theorem margin_top10_witness:
  "\<exists>r fig. analyze_profit_margins table_twelve_products = Inr r \<and> rchart r = Some fig \<and>
     map (\<lambda>(k, row). (k, cell row ''Profit_Margin'')) (rows (chart_data fig)) =
       [(Name ''L'', Fin 12), (Name ''K'', Fin 11), (Name ''J'', Fin 10), (Name ''I'', Fin 9),
        (Name ''H'', Fin 8), (Name ''G'', Fin 7), (Name ''F'', Fin 6), (Name ''E'', Fin 5),
        (Name ''D'', Fin 4), (Name ''C'', Fin 3)] \<and>
     map_option (\<lambda>fr. map fst (rows fr)) (rdataframe r) =
       Some [Name ''L'', Name ''K'', Name ''J'', Name ''I'', Name ''H'', Name ''G'', Name ''F'',
             Name ''E'', Name ''D'', Name ''C''] \<and>
     length (rows (chart_data fig)) = 10 \<and>
     List.map_filter (\<lambda>p. case p of Sub k \<Rightarrow> Some k | _ \<Rightarrow> None) (rtext r) =
       [Name ''L'', Name ''L'', Name ''K'', Name ''J'', Name ''I'', Name ''H'']"
proof -
  have run: "(case analyze_profit_margins table_twelve_products of
           Inr r \<Rightarrow>
             (case rchart r of
                Some fig \<Rightarrow>
                  Some (map (\<lambda>(k, row). (k, cell row ''Profit_Margin'')) (rows (chart_data fig)),
                        map_option (\<lambda>fr. map fst (rows fr)) (rdataframe r),
                        List.map_filter (\<lambda>p. case p of Sub k \<Rightarrow> Some k | _ \<Rightarrow> None) (rtext r))
              | None \<Rightarrow> None)
         | Inl e \<Rightarrow> None) =
        Some ([(Name ''L'', Fin 12), (Name ''K'', Fin 11), (Name ''J'', Fin 10), (Name ''I'', Fin 9),
               (Name ''H'', Fin 8), (Name ''G'', Fin 7), (Name ''F'', Fin 6), (Name ''E'', Fin 5),
               (Name ''D'', Fin 4), (Name ''C'', Fin 3)],
              Some [Name ''L'', Name ''K'', Name ''J'', Name ''I'', Name ''H'', Name ''G'',
                    Name ''F'', Name ''E'', Name ''D'', Name ''C''],
              [Name ''L'', Name ''L'', Name ''K'', Name ''J'', Name ''I'', Name ''H''])"
    by code_simp
  then obtain r fig where r: "analyze_profit_margins table_twelve_products = Inr r"
    and fig: "rchart r = Some fig"
    by (auto split: sum.splits option.splits)
  from run r fig have vals:
    "map (\<lambda>(k, row). (k, cell row ''Profit_Margin'')) (rows (chart_data fig)) =
       [(Name ''L'', Fin 12), (Name ''K'', Fin 11), (Name ''J'', Fin 10), (Name ''I'', Fin 9),
        (Name ''H'', Fin 8), (Name ''G'', Fin 7), (Name ''F'', Fin 6), (Name ''E'', Fin 5),
        (Name ''D'', Fin 4), (Name ''C'', Fin 3)]"
    "map_option (\<lambda>fr. map fst (rows fr)) (rdataframe r) =
       Some [Name ''L'', Name ''K'', Name ''J'', Name ''I'', Name ''H'', Name ''G'', Name ''F'',
             Name ''E'', Name ''D'', Name ''C'']"
    "List.map_filter (\<lambda>p. case p of Sub k \<Rightarrow> Some k | _ \<Rightarrow> None) (rtext r) =
       [Name ''L'', Name ''L'', Name ''K'', Name ''J'', Name ''I'', Name ''H'']"
    by simp_all
  have keys: "group_col_keys table_twelve_products =
      Some [Some ''A'', Some ''B'', Some ''C'', Some ''D'', Some ''E'', Some ''F'',
            Some ''G'', Some ''H'', Some ''I'', Some ''J'', Some ''K'', Some ''L'']"
    by (simp add: group_col_keys_def table_twelve_products_def)
  have card: "card (set (present [Some ''A'', Some ''B'', Some ''C'', Some ''D'', Some ''E'', Some ''F'',
            Some ''G'', Some ''H'', Some ''I'', Some ''J'', Some ''K'', Some ''L''])) = 12"
    by (simp add: present_def List.map_filter_def)
  from margin_top10 [OF r fig] keys card
  have len: "length (rows (chart_data fig)) = 10"
    by auto
  show ?thesis
    apply (rule exI [of _ r], rule exI [of _ fig])
    using r fig vals len apply simp
    done
qed

section \<open>Properties of the generator\<close>


lemma round_half_even_ge: "of_int k \<le> x \<Longrightarrow> k \<le> round_half_even x"
proof -
  assume "of_int k \<le> x"
  then have "k \<le> \<lfloor>x\<rfloor>" by (simp add: le_floor_iff)
  then show ?thesis by (auto simp: round_half_even_def Let_def)
qed

lemma round_half_even_le: "x \<le> of_int k \<Longrightarrow> round_half_even x \<le> k"
proof -
  assume le: "x \<le> of_int k"
  then have f: "\<lfloor>x\<rfloor> \<le> k" by (simp add: floor_le_iff) 
  show ?thesis
  proof (cases "x = of_int \<lfloor>x\<rfloor>")
    case True
    then have "x - of_int \<lfloor>x\<rfloor> = 0" by simp
    then show ?thesis using f by (simp add: round_half_even_def Let_def)
  next
    case False
    then have "of_int \<lfloor>x\<rfloor> < x" using of_int_floor_le [of x] by linarith
    with le have "(of_int \<lfloor>x\<rfloor> :: real) < of_int k" by linarith
    then have "\<lfloor>x\<rfloor> < k" by simp
    then show ?thesis by (auto simp: round_half_even_def Let_def)
  qed
qed


lemma round_to_3_bounds:
  assumes "of_int a / 1000 \<le> x" and "x \<le> of_int b / 1000"
  shows "of_int a / 1000 \<le> round_to 3 x \<and> round_to 3 x \<le> of_int b / 1000"
proof -
  from assms have "of_int a \<le> x * 1000" "x * 1000 \<le> of_int b"
    by (simp_all add: field_simps)
  then have "a \<le> round_half_even (x * 1000)" "round_half_even (x * 1000) \<le> b"
    by (simp_all add: round_half_even_ge round_half_even_le)
  then have "(of_int a :: real) \<le> of_int (round_half_even (x * 1000))"
    "(of_int (round_half_even (x * 1000)) :: real) \<le> of_int b"
    by simp_all
  then show ?thesis
    by (simp add: round_to_def field_simps)
qed

lemma uniform_bounds:
  assumes "unit_draw u" and "lo < hi"
  shows "lo \<le> uniform lo hi u" and "uniform lo hi u < hi"
proof -
  from assms have u: "0 \<le> u" "u < 1" and d: "0 < hi - lo"
    by (simp_all add: unit_draw_def)
  from u(1) d have "0 \<le> (hi - lo) * u" by simp
  then show "lo \<le> uniform lo hi u" by (simp add: uniform_def)
  from u(2) d have "(hi - lo) * u < (hi - lo) * 1"
    by (rule mult_strict_left_mono)
  then show "uniform lo hi u < hi" by (simp add: uniform_def)
qed

lemma category_of_cases:
  "unit_draw (r_category d) \<Longrightarrow> category_of d \<in> set PRODUCT_CATEGORIES"
  by (auto simp: category_of_def choice_p_def PRODUCT_CATEGORIES_def unit_draw_def)

lemma units_sold_bounds: "10 \<le> units_sold_of d \<and> units_sold_of d < 300"
proof -
  have "r_units d mod 290 < 290" by simp
  then show ?thesis by (simp add: units_sold_of_def np_randint_def)
qed

lemma base_price_bounds:
  assumes "unit_draw (r_base_price d)"
  shows "(category_of d = ''Electronics'' \<longrightarrow> 150 \<le> base_price_of d \<and> base_price_of d < 800) \<and>
         (category_of d = ''Software'' \<longrightarrow> 500 \<le> base_price_of d \<and> base_price_of d < 2500) \<and>
         (category_of d = ''Services'' \<longrightarrow> 100 \<le> base_price_of d \<and> base_price_of d < 600) \<and>
         (category_of d = ''Apparel'' \<longrightarrow> 20 \<le> base_price_of d \<and> base_price_of d < 150)"
  using uniform_bounds [OF assms, of 150 800] uniform_bounds [OF assms, of 500 2500]
    uniform_bounds [OF assms, of 100 600] uniform_bounds [OF assms, of 20 150]
  by (simp add: base_price_of_def)


lemma revenue_factors:
  "revenue_of d =
     of_nat (units_sold_of d) * base_price_of d
       * (if region_of d = ''North'' \<and> category_of d = ''Electronics'' then 1.15 else 1)
       * (if region_of d = ''South'' \<and> category_of d = ''Apparel'' then 1.2 else 1)
       * (if contains ''Holiday'' (campaign_name_of d) then 1.25 else 1)
       * (if contains ''Summer'' (campaign_name_of d) then 1.1 else 1)"
  by (simp add: revenue_of_def Let_def)



lemma generated_record_draws:
  assumes "\<forall>i<n. unit_draws (rng i)" and "t \<in> set (generate_business_data n rng)"
  shows "\<exists>d. unit_draws d \<and> t = generate_record d"
  using assms by (auto simp: generate_business_data_def)


lemma round_half_even_10: "round_half_even 10 = 10"
  by (simp add: round_half_even_def)

lemma round_half_even_9991: "round_half_even (9991 / 100) = 100"
proof -
  have "\<lfloor>9991 / 100 :: real\<rfloor> = 99"
    by (simp add: floor_eq_iff)
  then show ?thesis
    by (simp add: round_half_even_def Let_def)
qed



text \<open>
  Claim C8. Every record of the generator comes from draws for which the number of units
  lies in 10..299, the base price lies in the range of the record's category (Electronics
  150 to 800, Software 500 to 2500, Services 100 to 600, Apparel 20 to 150), and the revenue
  is units times base price times 1.15 when the region is North and the category
  Electronics, times 1.2 when the region is South and the category Apparel, times 1.25 when
  the campaign name contains "Holiday", times 1.1 when it contains "Summer"; the stored
  Revenue is that product rounded to two decimals.
\<close>

theorem generated_revenue_formula:
  assumes "\<forall>i<n. unit_draws (rng i)" and "t \<in> set (generate_business_data n rng)"
  shows "\<exists>d. unit_draws d \<and> t = generate_record d \<and>
           t_Region t = region_of d \<and> t_Category_Department t = category_of d \<and>
           t_Campaign_Name t = campaign_name_of d \<and> t_Units_Sold t = units_sold_of d \<and>
           category_of d \<in> set PRODUCT_CATEGORIES \<and>
           10 \<le> units_sold_of d \<and> units_sold_of d < 300 \<and>
           (category_of d = ''Electronics'' \<longrightarrow> 150 \<le> base_price_of d \<and> base_price_of d \<le> 800) \<and>
           (category_of d = ''Software'' \<longrightarrow> 500 \<le> base_price_of d \<and> base_price_of d \<le> 2500) \<and>
           (category_of d = ''Services'' \<longrightarrow> 100 \<le> base_price_of d \<and> base_price_of d \<le> 600) \<and>
           (category_of d = ''Apparel'' \<longrightarrow> 20 \<le> base_price_of d \<and> base_price_of d \<le> 150) \<and>
           revenue_of d =
             of_nat (units_sold_of d) * base_price_of d
               * (if region_of d = ''North'' \<and> category_of d = ''Electronics'' then 1.15 else 1)
               * (if region_of d = ''South'' \<and> category_of d = ''Apparel'' then 1.2 else 1)
               * (if contains ''Holiday'' (campaign_name_of d) then 1.25 else 1)
               * (if contains ''Summer'' (campaign_name_of d) then 1.1 else 1) \<and>
           t_Revenue t = round_to 2 (revenue_of d)"
proof -
  from generated_record_draws [OF assms] obtain d
    where d: "unit_draws d" and t: "t = generate_record d"
    by blast
  from d have ub: "unit_draw (r_base_price d)" and uc: "unit_draw (r_category d)"
    by (simp_all add: unit_draws_def)
  have fields: "t_Region t = region_of d" "t_Category_Department t = category_of d"
    "t_Campaign_Name t = campaign_name_of d" "t_Units_Sold t = units_sold_of d"
    "t_Revenue t = round_to 2 (revenue_of d)"
    by (simp_all add: t generate_record_def)
  have cat: "category_of d \<in> set PRODUCT_CATEGORIES"
    by (rule category_of_cases [OF uc])
  have units: "10 \<le> units_sold_of d" "units_sold_of d < 300"
    using units_sold_bounds [of d] by simp_all
  have price:
    "category_of d = ''Electronics'' \<longrightarrow> 150 \<le> base_price_of d \<and> base_price_of d \<le> 800"
    "category_of d = ''Software'' \<longrightarrow> 500 \<le> base_price_of d \<and> base_price_of d \<le> 2500"
    "category_of d = ''Services'' \<longrightarrow> 100 \<le> base_price_of d \<and> base_price_of d \<le> 600"
    "category_of d = ''Apparel'' \<longrightarrow> 20 \<le> base_price_of d \<and> base_price_of d \<le> 150"
    using base_price_bounds [OF ub] by (simp_all add: less_imp_le)
  from d t fields cat units price revenue_factors [of d] show ?thesis
    by blast
qed

theorem generated_revenue_formula_witness:
  "unit_draws example_draws \<and>
   generate_record example_draws \<in> set (generate_business_data 1 (\<lambda>i. example_draws)) \<and>
   t_Region (generate_record example_draws) = ''North'' \<and>
   t_Category_Department (generate_record example_draws) = ''Electronics'' \<and>
   t_Campaign_Name (generate_record example_draws) = ''Holiday Sale'' \<and>
   t_Units_Sold (generate_record example_draws) = 50 \<and>
   base_price_of example_draws = 475 \<and>
   revenue_of example_draws = 50 * 475 * 1.15 * 1.25 \<and>
   (\<exists>d. unit_draws d \<and> generate_record example_draws = generate_record d \<and>
        revenue_of d =
          of_nat (units_sold_of d) * base_price_of d
            * (if region_of d = ''North'' \<and> category_of d = ''Electronics'' then 1.15 else 1)
            * (if region_of d = ''South'' \<and> category_of d = ''Apparel'' then 1.2 else 1)
            * (if contains ''Holiday'' (campaign_name_of d) then 1.25 else 1)
            * (if contains ''Summer'' (campaign_name_of d) then 1.1 else 1))"
proof -
  have u: "unit_draws example_draws"
    by (simp add: unit_draws_def unit_draw_def example_draws_def)
  then have p1: "\<forall>i<1. unit_draws ((\<lambda>i. example_draws) i)"
    by simp
  have p2: "generate_record example_draws \<in> set (generate_business_data 1 (\<lambda>i. example_draws))"
    by (simp add: generate_business_data_def)
  have region: "region_of example_draws = ''North''"
    by (simp add: region_of_def choice_p_def REGIONS_def example_draws_def)
  have category: "category_of example_draws = ''Electronics''"
    by (simp add: category_of_def choice_p_def PRODUCT_CATEGORIES_def example_draws_def)
  have campaign: "campaign_name_of example_draws = ''Holiday Sale''"
    by (simp add: campaign_name_of_def choice_def CAMPAIGN_NAMES_def example_draws_def)
  have units: "units_sold_of example_draws = 50"
    by (simp add: units_sold_of_def np_randint_def example_draws_def)
  have price: "base_price_of example_draws = 475"
    by (simp add: base_price_of_def category uniform_def) (simp add: example_draws_def)
  have holiday: "contains ''Holiday'' ''Holiday Sale''" "\<not> contains ''Summer'' ''Holiday Sale''"
    by simp_all
  have revenue: "revenue_of example_draws = 50 * 475 * 1.15 * 1.25"
    by (simp add: revenue_factors region category campaign units price holiday)
  have fields: "t_Region (generate_record example_draws) = ''North''"
    "t_Category_Department (generate_record example_draws) = ''Electronics''"
    "t_Campaign_Name (generate_record example_draws) = ''Holiday Sale''"
    "t_Units_Sold (generate_record example_draws) = 50"
    by (simp_all add: generate_record_def region category campaign units)
  from generated_revenue_formula [OF p1 p2] u p2 fields price revenue show ?thesis
    by blast
qed

text \<open>
  Claim C7 says that the return rate of an Electronics or Apparel record is drawn from the
  open interval (0.01, 0.1). \<open>uniform(0.01, 0.1)\<close> draws from the half-open interval that
  contains 0.01, and the record stores the draw rounded to three decimals, which reaches
  both ends: the smallest draw gives the return rate 0.01, and the draw 0.09991 is stored
  as 0.1.
\<close>

theorem return_rate_at_interval_ends:
  "unit_draws draws_return_low \<and> unit_draws draws_return_high \<and>
   category_of draws_return_low = ''Electronics'' \<and>
   category_of draws_return_high = ''Electronics'' \<and>
   return_rate_of draws_return_low = 1 / 100 \<and>
   t_Return_Rate_pct (generate_record draws_return_low) = 1 / 100 \<and>
   return_rate_of draws_return_low \<notin> {1 / 100 <..< 1 / 10} \<and>
   return_rate_of draws_return_high = 9991 / 100000 \<and>
   t_Return_Rate_pct (generate_record draws_return_high) = 1 / 10 \<and>
   t_Return_Rate_pct (generate_record draws_return_high) \<notin> {1 / 100 <..< 1 / 10}"
proof -
  have u: "unit_draws draws_return_low" "unit_draws draws_return_high"
    by (simp_all add: unit_draws_def unit_draw_def draws_return_low_def draws_return_high_def
        example_draws_def)
  have c: "category_of draws_return_low = ''Electronics''"
    "category_of draws_return_high = ''Electronics''"
    by (simp_all add: category_of_def choice_p_def PRODUCT_CATEGORIES_def draws_return_low_def
        draws_return_high_def example_draws_def)
  have low: "return_rate_of draws_return_low = 1 / 100"
    by (simp add: return_rate_of_def c physical_goods_def uniform_def)
      (simp add: draws_return_low_def)
  have high: "return_rate_of draws_return_high = 9991 / 100000"
    by (simp add: return_rate_of_def c physical_goods_def uniform_def)
      (simp add: draws_return_high_def)
  have slow: "t_Return_Rate_pct (generate_record draws_return_low) = 1 / 100"
    by (simp add: generate_record_def low round_to_def round_half_even_10)
  have shigh: "t_Return_Rate_pct (generate_record draws_return_high) = 1 / 10"
    by (simp add: generate_record_def high round_to_def round_half_even_9991)
  from u c low high slow shigh show ?thesis
    by simp
qed

text \<open>
  Claim C7, amended. In every record of the generator the inventory level is present
  exactly when the category is Electronics or Apparel, and then lies in 100..4999; for
  Services and Software the return rate is 0; for Electronics and Apparel the return rate
  drawn lies in the half-open interval from 0.01 (included) to 0.1 (excluded), and the
  stored return rate, its rounding to three decimals, lies in the closed interval from 0.01
  to 0.1.
\<close>

theorem inventory_and_return_rate:
  assumes "\<forall>i<n. unit_draws (rng i)" and "t \<in> set (generate_business_data n rng)"
  shows "\<exists>d. unit_draws d \<and> t = generate_record d \<and>
           t_Category_Department t \<in> {''Electronics'', ''Services'', ''Software'', ''Apparel''} \<and>
           (t_Inventory_Level t \<noteq> None \<longleftrightarrow>
              t_Category_Department t \<in> {''Electronics'', ''Apparel''}) \<and>
           (\<forall>v. t_Inventory_Level t = Some v \<longrightarrow> 100 \<le> v \<and> v < 5000) \<and>
           (t_Category_Department t \<in> {''Services'', ''Software''} \<longrightarrow>
              return_rate_of d = 0 \<and> t_Return_Rate_pct t = 0) \<and>
           (t_Category_Department t \<in> {''Electronics'', ''Apparel''} \<longrightarrow>
              return_rate_of d = uniform 0.01 0.1 (r_return d) \<and>
              1 / 100 \<le> return_rate_of d \<and> return_rate_of d < 1 / 10 \<and>
              t_Return_Rate_pct t = round_to 3 (return_rate_of d) \<and>
              1 / 100 \<le> t_Return_Rate_pct t \<and> t_Return_Rate_pct t \<le> 1 / 10)"
proof -
  from generated_record_draws [OF assms] obtain d
    where d: "unit_draws d" and t: "t = generate_record d"
    by blast
  from d have ur: "unit_draw (r_return d)" and uc: "unit_draw (r_category d)"
    by (simp_all add: unit_draws_def)
  have fields: "t_Category_Department t = category_of d"
    "t_Inventory_Level t = inventory_level_of d"
    "t_Return_Rate_pct t = round_to 3 (return_rate_of d)"
    by (simp_all add: t generate_record_def)
  have cat: "category_of d \<in> {''Electronics'', ''Services'', ''Software'', ''Apparel''}"
    using category_of_cases [OF uc] by (simp add: PRODUCT_CATEGORIES_def)
  have phys: "physical_goods (category_of d) \<longleftrightarrow> category_of d \<in> {''Electronics'', ''Apparel''}"
    by (simp add: physical_goods_def)
  have inv1: "inventory_level_of d \<noteq> None \<longleftrightarrow> category_of d \<in> {''Electronics'', ''Apparel''}"
    by (simp add: inventory_level_of_def physical_goods_def)
  have inv2: "100 \<le> v \<and> v < 5000" if "inventory_level_of d = Some v" for v
  proof -
    have "r_inventory d mod 4900 < 4900" by simp
    with that show ?thesis
      by (auto simp: inventory_level_of_def np_randint_def split: if_splits)
  qed
  have zero: "return_rate_of d = 0 \<and> round_to 3 (return_rate_of d) = 0"
    if "category_of d \<in> {''Services'', ''Software''}"
  proof -
    from that have "\<not> physical_goods (category_of d)"
      by (auto simp: physical_goods_def)
    then have "return_rate_of d = 0"
      by (simp add: return_rate_of_def)
    then show ?thesis
      by (simp add: round_to_def round_half_even_def)
  qed
  have drawn: "return_rate_of d = uniform 0.01 0.1 (r_return d) \<and>
      1 / 100 \<le> return_rate_of d \<and> return_rate_of d < 1 / 10 \<and>
      1 / 100 \<le> round_to 3 (return_rate_of d) \<and> round_to 3 (return_rate_of d) \<le> 1 / 10"
    if "category_of d \<in> {''Electronics'', ''Apparel''}"
  proof -
    from that phys have eq: "return_rate_of d = uniform 0.01 0.1 (r_return d)"
      by (simp add: return_rate_of_def)
    have b: "1 / 100 \<le> return_rate_of d" "return_rate_of d < 1 / 10"
      using uniform_bounds [OF ur, of "0.01" "0.1"] by (simp_all add: eq)
    then have "of_int 10 / 1000 \<le> return_rate_of d" "return_rate_of d \<le> of_int 100 / 1000"
      by simp_all
    from round_to_3_bounds [OF this]
    have "1 / 100 \<le> round_to 3 (return_rate_of d)" "round_to 3 (return_rate_of d) \<le> 1 / 10"
      by simp_all
    with eq b show ?thesis by blast
  qed
  from d t cat inv1 inv2 zero drawn show ?thesis
    unfolding fields by blast
qed

theorem inventory_and_return_rate_witness:
  "unit_draws draws_return_high \<and>
   generate_record draws_return_high \<in> set (generate_business_data 1 (\<lambda>i. draws_return_high)) \<and>
   t_Category_Department (generate_record draws_return_high) = ''Electronics'' \<and>
   t_Inventory_Level (generate_record draws_return_high) = Some 1000 \<and>
   (\<exists>d. unit_draws d \<and> generate_record draws_return_high = generate_record d \<and>
        1 / 100 \<le> return_rate_of d \<and> return_rate_of d < 1 / 10 \<and>
        1 / 100 \<le> t_Return_Rate_pct (generate_record draws_return_high) \<and>
        t_Return_Rate_pct (generate_record draws_return_high) \<le> 1 / 10)"
proof -
  have u: "unit_draws draws_return_high"
    by (simp add: unit_draws_def unit_draw_def draws_return_high_def example_draws_def)
  then have p1: "\<forall>i<1. unit_draws ((\<lambda>i. draws_return_high) i)"
    by simp
  have p2: "generate_record draws_return_high
      \<in> set (generate_business_data 1 (\<lambda>i. draws_return_high))"
    by (simp add: generate_business_data_def)
  have category: "category_of draws_return_high = ''Electronics''"
    by (simp add: category_of_def choice_p_def PRODUCT_CATEGORIES_def draws_return_high_def
        example_draws_def)
  have fields: "t_Category_Department (generate_record draws_return_high) = ''Electronics''"
    "t_Inventory_Level (generate_record draws_return_high) = Some 1000"
    by (simp_all add: generate_record_def category inventory_level_of_def physical_goods_def
        np_randint_def)
      (simp add: draws_return_high_def example_draws_def)
  from inventory_and_return_rate [OF p1 p2] fields(1) u p2 fields show ?thesis
    by auto
qed

end
